theory Spec2Isabelle
  imports Main "HOL-Library.Char_ord" "HOL-Library.List_Lexorder" "HOL-Library.AList"
    "HOL-Library.Word"
begin

unbundle bit_operations_syntax

section \<open>Python values and exceptions\<close>

text \<open>
  Python exceptions are values: a function that can raise returns \<open>py_exn + 'a\<close>, with
  \<open>Inl\<close> the exception. \<open>ValueError\<close> carries its message and \<open>KeyError\<close> its key.
  A Python string is a \<open>string\<close>, each \<open>char\<close> a code point below 256; strings are ordered
  as Python orders them, lexicographically by code point.
\<close>

datatype py_exn =
    ValueError string
  | KeyError string
  | IndexError
  | AttributeError
  | ToolFailure string
  | ModelFailure string

definition bind_exn :: "py_exn + 'a \<Rightarrow> ('a \<Rightarrow> py_exn + 'b) \<Rightarrow> py_exn + 'b" where
  "bind_exn r f = (case r of Inl e \<Rightarrow> Inl e | Inr x \<Rightarrow> f x)"

definition quoted :: "string \<Rightarrow> string" where
  "quoted s = [CHR 0x27] @ s @ [CHR 0x27]"

section \<open>String formatting: \<open>str.format(**kwargs)\<close>\<close>

text \<open>
  \<open>PromptTemplate.render\<close> is \<open>self.template.format(**kwargs)\<close>. The model follows the
  formatter of CPython: the body is read from left to right; \<open>{{\<close> and \<open>}}\<close> stand for one
  brace, a single \<open>}\<close> is an error, and a single \<open>{\<close> opens a replacement field
  \<open>{field_name!conversion:format_spec}\<close>. The first exception raised ends the call.
\<close>

record replacement_field =
  field_name :: string
  conversion :: "char option"
  format_spec :: string

text \<open>
  The field name ends at \<open>}\<close>, \<open>:\<close> or \<open>!\<close>; between \<open>[\<close> and \<open>]\<close> every character
  is skipped; a \<open>{\<close> outside brackets is an error. The result is the name, the character
  that ended it, and the rest of the body.
\<close>

fun scan_field_name :: "bool \<Rightarrow> string \<Rightarrow> string \<Rightarrow> py_exn + (string \<times> char \<times> string)" where
  "scan_field_name in_brackets acc [] = Inl (ValueError ''expected '}' before end of string'')"
| "scan_field_name True acc (c # r) = scan_field_name (c \<noteq> CHR '']'') (acc @ [c]) r"
| "scan_field_name False acc (c # r) =
     (if c = CHR ''{'' then Inl (ValueError ''unexpected '{' in field name'')
      else if c = CHR ''['' then scan_field_name True (acc @ [c]) r
      else if c = CHR ''}'' \<or> c = CHR '':'' \<or> c = CHR ''!'' then Inr (acc, c, r)
      else scan_field_name False (acc @ [c]) r)"

text \<open>The format spec runs to the \<open>}\<close> that closes the field, counting nested braces.\<close>

fun scan_format_spec :: "nat \<Rightarrow> string \<Rightarrow> string \<Rightarrow> py_exn + (string \<times> string)" where
  "scan_format_spec count acc [] = Inl (ValueError ''unmatched '{' in format spec'')"
| "scan_format_spec count acc (c # r) =
     (if c = CHR ''{'' then scan_format_spec (count + 1) (acc @ [c]) r
      else if c = CHR ''}'' then
        (if count - 1 = 0 then Inr (acc, r) else scan_format_spec (count - 1) (acc @ [c]) r)
      else scan_format_spec count (acc @ [c]) r)"

definition parse_format_spec ::
  "string \<Rightarrow> char option \<Rightarrow> string \<Rightarrow> py_exn + (replacement_field \<times> string)" where
  "parse_format_spec nm conv s =
     bind_exn (scan_format_spec 1 [] s) (\<lambda>(spec, rest).
       Inr (\<lparr>field_name = nm, conversion = conv, format_spec = spec\<rparr>, rest))"

definition parse_field :: "string \<Rightarrow> py_exn + (replacement_field \<times> string)" where
  "parse_field s =
     bind_exn (scan_field_name False [] s) (\<lambda>(nm, c, r).
       if c = CHR ''!'' then
         (case r of
            [] \<Rightarrow> Inl (ValueError ''end of string while looking for conversion specifier'')
          | conv # r1 \<Rightarrow>
              (case r1 of
                 [] \<Rightarrow> parse_format_spec nm (Some conv) r1
               | c2 # r2 \<Rightarrow>
                   if c2 = CHR ''}'' then
                     Inr (\<lparr>field_name = nm, conversion = Some conv, format_spec = []\<rparr>, r2)
                   else if c2 \<noteq> CHR '':'' then
                     Inl (ValueError ''expected ':' after conversion specifier'')
                   else parse_format_spec nm (Some conv) r2))
       else if c = CHR '':'' then parse_format_spec nm None r
       else Inr (\<lparr>field_name = nm, conversion = None, format_spec = []\<rparr>, r))"

text \<open>
  The first part of a field name, up to \<open>.\<close> or \<open>[\<close>, selects the argument. When it is
  empty or a decimal number the field is positional; \<open>get_integer\<close> tells, and raises on
  a number beyond \<open>PY_SSIZE_T_MAX\<close>.
\<close>

definition PY_SSIZE_T_MAX :: int where
  "PY_SSIZE_T_MAX = 9223372036854775807"

fun get_integer_from :: "int \<Rightarrow> string \<Rightarrow> py_exn + int option" where
  "get_integer_from accumulator [] = Inr (Some accumulator)"
| "get_integer_from accumulator (c # r) =
     (if \<not> (CHR ''0'' \<le> c \<and> c \<le> CHR ''9'') then Inr None
      else (let digitval = of_char c - (48::int)
            in if accumulator > (PY_SSIZE_T_MAX - digitval) div 10
               then Inl (ValueError ''Too many decimal digits in format string'')
               else get_integer_from (accumulator * 10 + digitval) r))"

definition get_integer :: "string \<Rightarrow> py_exn + int option" where
  "get_integer s = (if s = [] then Inr None else get_integer_from 0 s)"

definition first_part :: "string \<Rightarrow> string" where
  "first_part nm = takeWhile (\<lambda>c. c \<noteq> CHR ''.'' \<and> c \<noteq> CHR ''['') nm"

text \<open>
  A plain field is \<open>{name}\<close>: no attribute or index after the name, no conversion and an
  empty format spec; its value is written as it is. What Python does with the value of any
  other field (attribute and index lookup, \<open>!r\<close>, the format-spec language, nested fields)
  is not modelled: it is the parameter \<open>ext\<close>, called after the argument has been found.
\<close>

type_synonym field_formatter =
  "(string \<rightharpoonup> string) \<Rightarrow> string \<Rightarrow> replacement_field \<Rightarrow> py_exn + string"

definition is_plain :: "replacement_field \<Rightarrow> bool" where
  "is_plain fld \<longleftrightarrow> first_part (field_name fld) = field_name fld
                   \<and> conversion fld = None \<and> format_spec fld = []"

text \<open>
  The call passes keyword arguments only, so the tuple of positional arguments is empty and
  a positional field raises \<open>IndexError\<close>; a keyword that was not passed raises \<open>KeyError\<close>.
\<close>

definition output_markup ::
  "field_formatter \<Rightarrow> (string \<rightharpoonup> string) \<Rightarrow> replacement_field \<Rightarrow> py_exn + string" where
  "output_markup ext kwargs fld =
     (let first = first_part (field_name fld)
      in bind_exn (get_integer first) (\<lambda>first_idx.
           if first = [] \<or> first_idx \<noteq> None then Inl IndexError
           else (case kwargs first of
                   None \<Rightarrow> Inl (KeyError first)
                 | Some obj \<Rightarrow> if is_plain fld then Inr obj else ext kwargs obj fld)))"

lemma scan_field_name_shorter:
  "scan_field_name b acc s = Inr (nm, c, r) \<Longrightarrow> length r < length s"
  by (induction b acc s rule: scan_field_name.induct) (auto split: if_splits)

lemma scan_format_spec_shorter:
  "scan_format_spec k acc s = Inr (spec, r) \<Longrightarrow> length r < length s"
  by (induction k acc s rule: scan_format_spec.induct) (auto split: if_splits)

lemma parse_format_spec_shorter:
  "parse_format_spec nm conv s = Inr (fld, r) \<Longrightarrow> length r < length s"
  by (auto simp: parse_format_spec_def bind_exn_def split: sum.splits dest: scan_format_spec_shorter)

lemma parse_field_shorter:
  "parse_field s = Inr (fld, r) \<Longrightarrow> length r < length s"
  unfolding parse_field_def bind_exn_def
  by (auto split: sum.splits list.splits if_splits
           dest!: scan_field_name_shorter parse_format_spec_shorter)

lemma parse_field_shorter_snd:
  "parse_field s = Inr b \<Longrightarrow> length (snd b) < length s"
  by (cases b) (simp add: parse_field_shorter)

function build_string :: "field_formatter \<Rightarrow> (string \<rightharpoonup> string) \<Rightarrow> string \<Rightarrow> py_exn + string" where
  "build_string ext kwargs [] = Inr []"
| "build_string ext kwargs (c # r) =
     (if c = CHR ''{'' then
        (case r of
           [] \<Rightarrow> Inl (ValueError ''Single '{' encountered in format string'')
         | d # r' \<Rightarrow>
             if d = CHR ''{'' then
               bind_exn (build_string ext kwargs r') (\<lambda>out. Inr (c # out))
             else
               (case parse_field r of
                  Inl e \<Rightarrow> Inl e
                | Inr (fld, rest) \<Rightarrow>
                    bind_exn (output_markup ext kwargs fld) (\<lambda>v.
                    bind_exn (build_string ext kwargs rest) (\<lambda>out. Inr (v @ out)))))
      else if c = CHR ''}'' then
        (case r of
           [] \<Rightarrow> Inl (ValueError ''Single '}' encountered in format string'')
         | d # r' \<Rightarrow>
             if d = CHR ''}'' then
               bind_exn (build_string ext kwargs r') (\<lambda>out. Inr (c # out))
             else Inl (ValueError ''Single '}' encountered in format string''))
      else bind_exn (build_string ext kwargs r) (\<lambda>out. Inr (c # out)))"
  by pat_completeness auto
termination
  apply (relation "measure (\<lambda>(ext, kwargs, s). length s)")
      apply simp_all
  apply (drule parse_field_shorter_snd)
  apply auto
  done

text \<open>
  The pieces of a body, as the same scan yields them without looking any argument up:
  literal characters and replacement fields, or the syntax error of the body.
\<close>

datatype piece = Literal char | Field replacement_field





text \<open>
  What rendering gives on the pieces of a body whose placeholders are plain names: the
  literals and the values in order, or \<open>KeyError\<close> at the first placeholder without a
  value.
\<close>

fun expected :: "(string \<rightharpoonup> string) \<Rightarrow> piece list \<Rightarrow> py_exn + string" where
  "expected kwargs [] = Inr []"
| "expected kwargs (Literal c # ps) = bind_exn (expected kwargs ps) (\<lambda>out. Inr (c # out))"
| "expected kwargs (Field fld # ps) =
     (case kwargs (field_name fld) of
        None \<Rightarrow> Inl (KeyError (field_name fld))
      | Some v \<Rightarrow> bind_exn (expected kwargs ps) (\<lambda>out. Inr (v @ out)))"

section \<open>SHA-256 (\<open>hashlib.sha256(...).hexdigest()\<close>)\<close>

text \<open>
  \<open>content.encode()\<close> is the UTF-8 encoding: a code point below 128 is one byte, one
  below 256 two bytes.
\<close>

definition encode :: "string \<Rightarrow> nat list" where
  "encode s = concat (map (\<lambda>c. let n = of_char c
                                  in if n < 128 then [n] else [192 + n div 64, 128 + n mod 64]) s)"

type_synonym w32 = "32 word"

definition rotr :: "nat \<Rightarrow> w32 \<Rightarrow> w32" where
  "rotr n x = (drop_bit n x) OR (push_bit (32 - n) x)"

definition Ch :: "w32 \<Rightarrow> w32 \<Rightarrow> w32 \<Rightarrow> w32" where
  "Ch x y z = (x AND y) XOR (NOT x AND z)"

definition Maj :: "w32 \<Rightarrow> w32 \<Rightarrow> w32 \<Rightarrow> w32" where
  "Maj x y z = (x AND y) XOR (x AND z) XOR (y AND z)"

definition Sigma0 :: "w32 \<Rightarrow> w32" where
  "Sigma0 x = rotr 2 x XOR rotr 13 x XOR rotr 22 x"

definition Sigma1 :: "w32 \<Rightarrow> w32" where
  "Sigma1 x = rotr 6 x XOR rotr 11 x XOR rotr 25 x"

definition sigma0 :: "w32 \<Rightarrow> w32" where
  "sigma0 x = rotr 7 x XOR rotr 18 x XOR drop_bit 3 x"

definition sigma1 :: "w32 \<Rightarrow> w32" where
  "sigma1 x = rotr 17 x XOR rotr 19 x XOR drop_bit 10 x"

definition K256 :: "w32 list" where
  "K256 =
    [0x428a2f98, 0x71374491, 0xb5c0fbcf, 0xe9b5dba5,
     0x3956c25b, 0x59f111f1, 0x923f82a4, 0xab1c5ed5,
     0xd807aa98, 0x12835b01, 0x243185be, 0x550c7dc3,
     0x72be5d74, 0x80deb1fe, 0x9bdc06a7, 0xc19bf174,
     0xe49b69c1, 0xefbe4786, 0x0fc19dc6, 0x240ca1cc,
     0x2de92c6f, 0x4a7484aa, 0x5cb0a9dc, 0x76f988da,
     0x983e5152, 0xa831c66d, 0xb00327c8, 0xbf597fc7,
     0xc6e00bf3, 0xd5a79147, 0x06ca6351, 0x14292967,
     0x27b70a85, 0x2e1b2138, 0x4d2c6dfc, 0x53380d13,
     0x650a7354, 0x766a0abb, 0x81c2c92e, 0x92722c85,
     0xa2bfe8a1, 0xa81a664b, 0xc24b8b70, 0xc76c51a3,
     0xd192e819, 0xd6990624, 0xf40e3585, 0x106aa070,
     0x19a4c116, 0x1e376c08, 0x2748774c, 0x34b0bcb5,
     0x391c0cb3, 0x4ed8aa4a, 0x5b9cca4f, 0x682e6ff3,
     0x748f82ee, 0x78a5636f, 0x84c87814, 0x8cc70208,
     0x90befffa, 0xa4506ceb, 0xbef9a3f7, 0xc67178f2]"

definition H256 :: "w32 list" where
  "H256 = [0x6a09e667, 0xbb67ae85, 0x3c6ef372, 0xa54ff53a,
           0x510e527f, 0x9b05688c, 0x1f83d9ab, 0x5be0cd19]"

text \<open>
  Padding: the byte 0x80, zero bytes up to 56 modulo 64, then the length of the message in
  bits as 8 bytes, most significant first.
\<close>

definition length_bytes :: "nat \<Rightarrow> nat list" where
  "length_bytes n =
     (let bits = (of_nat (8 * n) :: 64 word)
      in map (\<lambda>i. unat (drop_bit (8 * i) bits AND 255)) (rev [0..<8]))"

definition pad :: "nat list \<Rightarrow> nat list" where
  "pad bs = bs @ [128] @ replicate ((119 - length bs mod 64) mod 64) 0
              @ length_bytes (length bs)"

fun be_words :: "nat list \<Rightarrow> w32 list" where
  "be_words (a # b # c # d # r) =
     (push_bit 24 (of_nat a) OR push_bit 16 (of_nat b) OR push_bit 8 (of_nat c) OR of_nat d)
       # be_words r"
| "be_words r = []"

fun schedule :: "nat \<Rightarrow> w32 list \<Rightarrow> w32 list" where
  "schedule 0 w = w"
| "schedule (Suc n) w =
     (let t = length w
      in schedule n (w @ [sigma1 (w ! (t - 2)) + w ! (t - 7) + sigma0 (w ! (t - 15)) + w ! (t - 16)]))"

fun round :: "w32 list \<Rightarrow> w32 \<times> w32 \<Rightarrow> w32 list" where
  "round [a, b, c, d, e, f, g, h] (k, w) =
     (let t1 = h + Sigma1 e + Ch e f g + k + w;
          t2 = Sigma0 a + Maj a b c
      in [t1 + t2, a, b, c, d + t1, e, f, g])"
| "round s kw = s"

definition compress :: "w32 list \<Rightarrow> w32 list \<Rightarrow> w32 list" where
  "compress hs block = map2 (+) hs (foldl round hs (zip K256 (schedule 48 block)))"

fun blocks :: "nat \<Rightarrow> w32 list \<Rightarrow> w32 list list" where
  "blocks 0 ws = []"
| "blocks (Suc n) ws = take 16 ws # blocks n (drop 16 ws)"

definition sha256 :: "nat list \<Rightarrow> w32 list" where
  "sha256 bs = (let ws = be_words (pad bs)
                in foldl compress H256 (blocks (length ws div 16) ws))"

definition hex_digit :: "nat \<Rightarrow> char" where
  "hex_digit n = ''0123456789abcdef'' ! n"

definition hex_word :: "w32 \<Rightarrow> string" where
  "hex_word w = map (\<lambda>i. hex_digit (unat (drop_bit (4 * i) w AND 15))) (rev [0..<8])"

definition sha256_hexdigest :: "nat list \<Rightarrow> string" where
  "sha256_hexdigest bs = concat (map hex_word (sha256 bs))"

section \<open>The prompt store (PromptManager.py)\<close>

record PromptTemplate =
  name :: string
  version :: string
  template :: string
  author :: string
  date :: string
  changes :: string
  tags :: "string list"
  model_hints :: "(string \<times> string) list"
  content_hash :: string
  file_path :: string

definition render :: "field_formatter \<Rightarrow> PromptTemplate \<Rightarrow> (string \<rightharpoonup> string) \<Rightarrow> py_exn + string" where
  "render ext self kwargs = build_string ext kwargs (template self)"

text \<open>
  The manifest is the dictionary read from \<open>manifest.yaml\<close>: under \<open>prompts\<close>, one
  entry per prompt name. An entry is a mapping, whose key \<open>latest\<close> may be absent, or it is
  not a mapping: \<open>None\<close> stands for such an entry, as YAML reads \<open>name:\<close> with nothing
  under it. Dictionaries are association lists in insertion order, read with \<open>map_of\<close>:
  \<open>k in d\<close> is \<open>map_of d k \<noteq> None\<close>, \<open>d.keys()\<close> is \<open>map fst d\<close>, and \<open>d[k] = v\<close> is
  \<open>AList.update k v d\<close>.
\<close>

record prompt_config =
  latest :: "string option"

record manifest_file =
  prompts :: "(string \<times> prompt_config option) list"
  settings :: "(string \<times> string) list"

record PromptManager =
  prompts_dir :: string
  cache :: "(string \<times> (string \<times> PromptTemplate) list) list"
  manifest :: manifest_file

subsection \<open>Loading\<close>

text \<open>
  What \<open>frontmatter.load\<close> returns for a file: the metadata of its header, each key of
  which may be missing, and the text under the header.
\<close>

record front_matter =
  meta_author :: "string option"
  meta_date :: "string option"
  meta_changes :: "string option"
  meta_tags :: "string list option"
  meta_model_hints :: "(string \<times> string) list option"

record post =
  post_metadata :: front_matter
  post_content :: string

text \<open>\<open>str.strip()\<close> removes the white space of Python at both ends.\<close>

definition is_space :: "char \<Rightarrow> bool" where
  "is_space c \<longleftrightarrow> of_char c \<in> set [9, 10, 11, 12, 13, 28, 29, 30, 31, 32, 133, 160 :: nat]"

definition strip :: "string \<Rightarrow> string" where
  "strip s = rev (dropWhile is_space (rev (dropWhile is_space s)))"

text \<open>The fingerprint of a body: the first 12 hexadecimal digits of its SHA-256 digest.\<close>

definition fingerprint :: "string \<Rightarrow> string" where
  "fingerprint body = take 12 (sha256_hexdigest (encode body))"

definition load_prompt_file :: "string \<Rightarrow> string \<Rightarrow> string \<Rightarrow> post \<Rightarrow> PromptTemplate" where
  "load_prompt_file n ver path p =
     (let metadata = post_metadata p;
          body = strip (post_content p);
          hash = fingerprint body
      in \<lparr>name = n, version = ver, template = body,
          author = (case meta_author metadata of None \<Rightarrow> ''unknown'' | Some a \<Rightarrow> a),
          date = (case meta_date metadata of None \<Rightarrow> ''unknown'' | Some d \<Rightarrow> d),
          changes = (case meta_changes metadata of None \<Rightarrow> [] | Some c \<Rightarrow> c),
          tags = (case meta_tags metadata of None \<Rightarrow> [] | Some t \<Rightarrow> t),
          model_hints = (case meta_model_hints metadata of None \<Rightarrow> [] | Some h \<Rightarrow> h),
          content_hash = hash, file_path = path\<rparr>)"

text \<open>
  The directory of prompts as \<open>_load_all_prompts\<close> sees it: for each directory that
  exists, the file names \<open>os.listdir\<close> returns, each with what reading the file gives: the
  post, or the exception that makes the loader skip the file.
\<close>

type_synonym prompt_files = "(string \<times> (string \<times> (py_exn + post)) list) list"

definition endswith :: "string \<Rightarrow> string \<Rightarrow> bool" where
  "endswith s suffix \<longleftrightarrow> length suffix \<le> length s \<and> drop (length s - length suffix) s = suffix"

text \<open>\<open>filename.replace('.md', '')\<close> removes every occurrence, from left to right.\<close>

fun remove_md :: "string \<Rightarrow> string" where
  "remove_md (a # b # c # r) =
     (if [a, b, c] = ''.md'' then remove_md r else a # remove_md (b # c # r))"
| "remove_md r = r"

definition path_join :: "string \<Rightarrow> string \<Rightarrow> string" where
  "path_join a b =
     (if b \<noteq> [] \<and> hd b = CHR ''/'' then b
      else if a = [] \<or> last a = CHR ''/'' then a @ b
      else a @ ''/'' @ b)"

fun load_versions ::
  "string \<Rightarrow> string \<Rightarrow> (string \<times> (py_exn + post)) list
     \<Rightarrow> (string \<times> PromptTemplate) list \<Rightarrow> (string \<times> PromptTemplate) list" where
  "load_versions prompt_dir n [] loaded = loaded"
| "load_versions prompt_dir n ((filename, file) # files) loaded =
     (if endswith filename ''.md'' then
        (let ver = remove_md filename;
             path = path_join prompt_dir filename
         in case file of
              Inl e \<Rightarrow> load_versions prompt_dir n files loaded
            | Inr p \<Rightarrow>
                load_versions prompt_dir n files
                  (AList.update ver (load_prompt_file n ver path p) loaded))
      else load_versions prompt_dir n files loaded)"

fun load_all_prompts ::
  "string \<Rightarrow> prompt_files \<Rightarrow> (string \<times> prompt_config option) list
     \<Rightarrow> (string \<times> (string \<times> PromptTemplate) list) list
     \<Rightarrow> (string \<times> (string \<times> PromptTemplate) list) list" where
  "load_all_prompts dir fs [] c = c"
| "load_all_prompts dir fs ((prompt_name, config) # rest) c =
     (case map_of fs prompt_name of
        None \<Rightarrow> load_all_prompts dir fs rest c
      | Some files \<Rightarrow>
          load_all_prompts dir fs rest
            (AList.update prompt_name
               (load_versions (path_join dir prompt_name) prompt_name files []) c))"

text \<open>
  The constructor: the manifest is read (an absent manifest file is the empty manifest),
  then every prompt is loaded into the empty cache. \<open>reload\<close> does the same again.
\<close>

definition PromptManager_init :: "string \<Rightarrow> manifest_file option \<Rightarrow> prompt_files \<Rightarrow> PromptManager" where
  "PromptManager_init dir manifest_yaml fs =
     (let m = (case manifest_yaml of None \<Rightarrow> \<lparr>prompts = [], settings = []\<rparr> | Some m \<Rightarrow> m)
      in \<lparr>prompts_dir = dir, cache = load_all_prompts dir fs (prompts m) [], manifest = m\<rparr>)"

subsection \<open>Resolving\<close>

text \<open>
  The latest version the manifest declares for a name:
  \<open>self.manifest.get("prompts", {}).get(name, {}).get("latest", None)\<close>. A name without an
  entry gets the default \<open>{}\<close> and so no latest version; an entry that is not a mapping has
  no method \<open>get\<close>, and the last call raises \<open>AttributeError\<close>.
\<close>

definition declared_latest :: "manifest_file \<Rightarrow> string \<Rightarrow> py_exn + string option" where
  "declared_latest m n =
     (case map_of (prompts m) n of
        None \<Rightarrow> Inr None
      | Some None \<Rightarrow> Inl AttributeError
      | Some (Some c) \<Rightarrow> Inr (latest c))"

text \<open>
  \<open>get_prompt\<close>. The manifest is read only when the version is \<open>None\<close> or \<open>latest\<close>. The
  test \<open>not version\<close> holds for \<open>None\<close> and for the empty string; then the greatest loaded
  version, \<open>sorted(versions)[-1]\<close>, is taken.
\<close>

definition get_prompt :: "PromptManager \<Rightarrow> string \<Rightarrow> string option \<Rightarrow> py_exn + PromptTemplate" where
  "get_prompt self n v =
     (case map_of (cache self) n of
        None \<Rightarrow> Inl (ValueError (''Prompt '' @ quoted n @ '' not found''))
      | Some loaded \<Rightarrow>
          (let versions = map fst loaded;
               fallback = (if versions \<noteq> [] then Inr (last (sort versions))
                           else Inl (ValueError (''No versions found for prompt '' @ quoted n)));
               from_manifest =
                 bind_exn (declared_latest (manifest self) n) (\<lambda>declared.
                   case declared of
                     None \<Rightarrow> fallback
                   | Some d \<Rightarrow> if d = [] then fallback else Inr d)
           in bind_exn
                (case v of
                   None \<Rightarrow> from_manifest
                 | Some ver \<Rightarrow> if ver = ''latest'' then from_manifest else Inr ver)
                (\<lambda>ver. case map_of loaded ver of
                          None \<Rightarrow> Inl (ValueError (''Version '' @ quoted ver
                                      @ '' not found for prompt '' @ quoted n))
                        | Some t \<Rightarrow> Inr t)))"

definition list_prompts :: "PromptManager \<Rightarrow> string list" where
  "list_prompts self = map fst (cache self)"

definition list_versions :: "PromptManager \<Rightarrow> string \<Rightarrow> py_exn + string list" where
  "list_versions self n =
     (case map_of (cache self) n of
        None \<Rightarrow> Inl (ValueError (''Prompt '' @ quoted n @ '' not found''))
      | Some loaded \<Rightarrow> Inr (sort (map fst loaded)))"

record changelog_entry =
  entry_date :: string
  entry_author :: string
  entry_changes :: string

definition get_changelog :: "PromptManager \<Rightarrow> string \<Rightarrow> py_exn + (string \<times> changelog_entry) list" where
  "get_changelog self n =
     (case map_of (cache self) n of
        None \<Rightarrow> Inl (ValueError (''Prompt '' @ quoted n @ '' not found''))
      | Some loaded \<Rightarrow>
          Inr (map (\<lambda>(ver, t). (ver, \<lparr>entry_date = date t, entry_author = author t,
                                      entry_changes = changes t\<rparr>)) loaded))"

section \<open>Conversation turns and the researcher state (app.py)\<close>

text \<open>
  A tool-call request as the model produces it: \<open>tool_call["name"]\<close>, \<open>tool_call["args"]\<close>,
  \<open>tool_call["id"]\<close>. The argument payload is a dictionary.
\<close>

record tool_call =
  tc_name :: string
  tc_args :: "(string \<times> string) list"
  tc_id :: string

text \<open>
  The four message classes of the conversation. Only an \<open>AIMessage\<close> has the attribute
  \<open>tool_calls\<close>; a \<open>ToolMessage\<close> is built with \<open>content\<close>, \<open>name\<close> and \<open>tool_call_id\<close>.
  The content of a message is a string, so \<open>str(m.content)\<close> is the content.
\<close>

datatype message =
    SystemMessage string
  | HumanMessage string
  | AIMessage string "tool_call list"
  | ToolMessage string string string

fun content :: "message \<Rightarrow> string" where
  "content (SystemMessage c) = c"
| "content (HumanMessage c) = c"
| "content (AIMessage c tcs) = c"
| "content (ToolMessage c n i) = c"

fun message_type :: "message \<Rightarrow> string" where
  "message_type (SystemMessage c) = ''system''"
| "message_type (HumanMessage c) = ''human''"
| "message_type (AIMessage c tcs) = ''ai''"
| "message_type (ToolMessage c n i) = ''tool''"

fun tool_calls :: "message \<Rightarrow> py_exn + tool_call list" where
  "tool_calls (AIMessage c tcs) = Inr tcs"
| "tool_calls m = Inl AttributeError"

text \<open>
  Modelled from the spec: the class \<open>ResearcherState\<close> is imported from \<open>state_research\<close>,
  which is not among the sources. Its fields are those of \<open>initial_state\<close> in app.py and of
  the spec's ResearchState. The conversation is an append-only sequence: the messages a node
  returns under the key \<open>researcher_messages\<close> are appended to it.
\<close>

record ResearcherState =
  researcher_messages :: "message list"
  tool_call_iterations :: int
  research_topic :: string
  compressed_research :: string
  raw_notes :: "string list"
  qa_report :: string

definition add_messages :: "ResearcherState \<Rightarrow> message list \<Rightarrow> ResearcherState" where
  "add_messages s new = s\<lparr>researcher_messages := researcher_messages s @ new\<rparr>"

text \<open>
  The dictionary \<open>compress_research\<close> returns: its keys \<open>compressed_research\<close> and
  \<open>raw_notes\<close>.
\<close>

record compression =
  compressed_research_out :: string
  raw_notes_out :: "string list"

text \<open>\<open>messages[-1]\<close>: the last element, \<open>IndexError\<close> on the empty list.\<close>

definition last_message :: "message list \<Rightarrow> py_exn + message" where
  "last_message ms = (if ms = [] then Inl IndexError else Inr (last ms))"

subsection \<open>The nodes\<close>

text \<open>
  Each node builds a \<open>PromptManager\<close> from the prompts directory; the store it gets is the
  parameter \<open>pm\<close>. A chat model is a function from the messages it is invoked with to its
  response or the exception it raises; \<open>today\<close> is what \<open>get_today_str()\<close> returns.
\<close>

type_synonym chat_model = "message list \<Rightarrow> py_exn + message"

definition llm_call ::
  "PromptManager \<Rightarrow> field_formatter \<Rightarrow> string \<Rightarrow> chat_model \<Rightarrow> ResearcherState
     \<Rightarrow> py_exn + message list" where
  "llm_call pm ext today model_with_tools state =
     bind_exn (get_prompt pm ''research_agent_prompt_user'' (Some ''v1.0.0'')) (\<lambda>p.
     bind_exn (render ext p [''date'' \<mapsto> today]) (\<lambda>research_agent_prompt.
     bind_exn (model_with_tools
                 ([SystemMessage research_agent_prompt] @ researcher_messages state)) (\<lambda>response.
       Inr [response])))"

text \<open>
  \<open>tools_by_name\<close> maps a tool's name to the tool; \<open>tool.invoke(args)\<close> returns the
  observation or raises. The \<open>for\<close> loop of \<open>tool_node\<close> looks each tool up
  (\<open>KeyError\<close> when the name is not registered) and invokes it, in the order of the requests;
  the first exception ends the loop.
\<close>

type_synonym tool = "(string \<times> string) list \<Rightarrow> py_exn + string"

fun observe :: "(string \<rightharpoonup> tool) \<Rightarrow> tool_call list \<Rightarrow> py_exn + string list" where
  "observe tools_by_name [] = Inr []"
| "observe tools_by_name (tc # tcs) =
     (case tools_by_name (tc_name tc) of
        None \<Rightarrow> Inl (KeyError (tc_name tc))
      | Some tool \<Rightarrow>
          bind_exn (tool (tc_args tc)) (\<lambda>observation.
          bind_exn (observe tools_by_name tcs) (\<lambda>observations.
            Inr (observation # observations))))"

definition tool_node :: "(string \<rightharpoonup> tool) \<Rightarrow> ResearcherState \<Rightarrow> py_exn + message list" where
  "tool_node tools_by_name state =
     bind_exn (last_message (researcher_messages state)) (\<lambda>last_message.
     bind_exn (tool_calls last_message) (\<lambda>tcs.
     bind_exn (observe tools_by_name tcs) (\<lambda>observations.
       Inr (map (\<lambda>(observation, tc). ToolMessage observation (tc_name tc) (tc_id tc))
              (zip observations tcs)))))"

text \<open>
  \<open>filter_messages(messages, include_types=["tool", "ai"])\<close> keeps the messages of these
  types, in their order; \<open>"\n".join\<close> puts a newline between the strings.
\<close>

definition filter_messages :: "message list \<Rightarrow> string list \<Rightarrow> message list" where
  "filter_messages ms include_types = filter (\<lambda>m. message_type m \<in> set include_types) ms"

fun join :: "string \<Rightarrow> string list \<Rightarrow> string" where
  "join sep [] = []"
| "join sep [x] = x"
| "join sep (x # y # r) = x @ sep @ join sep (y # r)"

definition compress_research ::
  "PromptManager \<Rightarrow> field_formatter \<Rightarrow> string \<Rightarrow> chat_model \<Rightarrow> ResearcherState
     \<Rightarrow> py_exn + compression" where
  "compress_research pm ext today compress_model state =
     bind_exn (get_prompt pm ''compress_research_prompt_system'' (Some ''v1.0.0''))
       (\<lambda>compress_research_system_prompt.
     bind_exn (render ext compress_research_system_prompt [''date'' \<mapsto> today]) (\<lambda>system_message.
     bind_exn (get_prompt pm ''compress_research_prompt_user'' (Some ''v1.0.0'')) (\<lambda>p.
     bind_exn (render ext p [''research_topic'' \<mapsto> research_topic state])
       (\<lambda>compress_research_human_message.
     bind_exn (compress_model ([SystemMessage system_message] @ researcher_messages state
                                @ [HumanMessage compress_research_human_message])) (\<lambda>response.
       (let notes = map content (filter_messages (researcher_messages state) [''tool'', ''ai''])
        in Inr \<lparr>compressed_research_out = content response,
                raw_notes_out = [join [CHR 0x0A] notes]\<rparr>))))))"

text \<open>
  \<open>assess_quality\<close>: the messages the QA model is invoked with, the local \<open>messages\<close>, and
  the node, which returns the report.
\<close>

definition assess_quality_messages ::
  "PromptManager \<Rightarrow> field_formatter \<Rightarrow> ResearcherState \<Rightarrow> py_exn + message list" where
  "assess_quality_messages pm ext state =
     bind_exn (get_prompt pm ''geologic_qa_prompt_user'' (Some ''v1.0.0'')) (\<lambda>geologic_qa_prompt.
     bind_exn (render ext geologic_qa_prompt [''research_report'' \<mapsto> compressed_research state])
       (\<lambda>qa_prompt_content.
       Inr [HumanMessage qa_prompt_content]))"

definition assess_quality ::
  "PromptManager \<Rightarrow> field_formatter \<Rightarrow> chat_model \<Rightarrow> ResearcherState \<Rightarrow> py_exn + string" where
  "assess_quality pm ext qa_model state =
     bind_exn (assess_quality_messages pm ext state) (\<lambda>messages.
     bind_exn (qa_model messages) (\<lambda>response.
       Inr (content response)))"

subsection \<open>Routing\<close>

definition should_continue :: "ResearcherState \<Rightarrow> py_exn + string" where
  "should_continue state =
     bind_exn (last_message (researcher_messages state)) (\<lambda>last_message.
     bind_exn (tool_calls last_message) (\<lambda>tcs.
       if tcs \<noteq> [] then Inr ''tool_node'' else Inr ''compress_research''))"

text \<open>
  The compiled graph: \<open>START \<rightarrow> llm_call\<close>, the conditional edge out of \<open>llm_call\<close> decided by
  \<open>should_continue\<close> (its path map is the identity on the two names),
  \<open>tool_node \<rightarrow> llm_call\<close>, \<open>compress_research \<rightarrow> assess_quality\<close>, \<open>assess_quality \<rightarrow> END\<close>.
\<close>

definition next_node :: "string \<Rightarrow> ResearcherState \<Rightarrow> py_exn + string" where
  "next_node node state =
     (if node = ''__start__'' then Inr ''llm_call''
      else if node = ''llm_call'' then should_continue state
      else if node = ''tool_node'' then Inr ''llm_call''
      else if node = ''compress_research'' then Inr ''assess_quality''
      else if node = ''assess_quality'' then Inr ''__end__''
      else Inl (KeyError node))"

section \<open>An example store\<close>

text \<open>
  A manifest of five prompts: one with a declared latest version, one without, one whose
  declared version is a malformed file, one without a directory, and one whose entry is
  empty (\<open>drafts:\<close> with nothing under it).
\<close>

definition example_manifest :: manifest_file where
  "example_manifest =
     \<lparr>prompts = [(''greeting'', Some \<lparr>latest = Some ''v2''\<rparr>),
                 (''notes'', Some \<lparr>latest = None\<rparr>),
                 (''report'', Some \<lparr>latest = Some ''v3''\<rparr>),
                 (''absent'', Some \<lparr>latest = Some ''v1''\<rparr>),
                 (''drafts'', None)],
      settings = []\<rparr>"

definition example_header :: front_matter where
  "example_header =
     \<lparr>meta_author = Some ''ada'', meta_date = None, meta_changes = None,
      meta_tags = None, meta_model_hints = None\<rparr>"

definition example_files :: prompt_files where
  "example_files =
     [(''greeting'',
         [(''v1.md'', Inr \<lparr>post_metadata = example_header, post_content = ''Hi {name}''\<rparr>),
          (''README.txt'', Inl (ValueError ''not a prompt'')),
          (''v2.md'', Inr \<lparr>post_metadata = example_header,
                           post_content = ''Hello {name}, welcome ''\<rparr>)]),
      (''notes'',
         [(''v10.md'', Inr \<lparr>post_metadata = example_header, post_content = ''ten''\<rparr>),
          (''v9.md'', Inr \<lparr>post_metadata = example_header, post_content = ''nine''\<rparr>)]),
      (''report'',
         [(''v1.md'', Inr \<lparr>post_metadata = example_header, post_content = ''one''\<rparr>),
          (''v3.md'', Inl (ValueError ''malformed header'')),
          (''v2.md'', Inr \<lparr>post_metadata = example_header, post_content = ''two''\<rparr>)]),
      (''drafts'',
         [(''v10.md'', Inr \<lparr>post_metadata = example_header, post_content = ''ten''\<rparr>),
          (''v9.md'', Inr \<lparr>post_metadata = example_header, post_content = ''nine''\<rparr>)])]"

definition example_store :: PromptManager where
  "example_store = PromptManager_init ''prompts'' (Some example_manifest) example_files"

definition example_template :: "string \<Rightarrow> string \<Rightarrow> string \<Rightarrow> PromptTemplate" where
  "example_template n ver body =
     \<lparr>name = n, version = ver, template = body, author = ''ada'', date = ''unknown'',
      changes = [], tags = [], model_hints = [], content_hash = fingerprint body,
      file_path = ''prompts/'' @ n @ ''/'' @ ver @ ''.md''\<rparr>"

text \<open>
  A store holding the three prompts the compression and assessment nodes resolve, a formatter
  that rejects every field that is not plain, a model that always answers \<open>summary\<close>, and
  the conversation "A", "T1", "B" of the spec.
\<close>

definition agent_manifest :: manifest_file where
  "agent_manifest =
     \<lparr>prompts = [(''compress_research_prompt_system'', Some \<lparr>latest = Some ''v1.0.0''\<rparr>),
                 (''compress_research_prompt_user'', Some \<lparr>latest = Some ''v1.0.0''\<rparr>),
                 (''geologic_qa_prompt_user'', Some \<lparr>latest = Some ''v1.0.0''\<rparr>)],
      settings = []\<rparr>"

definition agent_files :: prompt_files where
  "agent_files =
     [(''compress_research_prompt_system'',
         [(''v1.0.0.md'', Inr \<lparr>post_metadata = example_header,
                               post_content = ''Today is {date}.''\<rparr>)]),
      (''compress_research_prompt_user'',
         [(''v1.0.0.md'', Inr \<lparr>post_metadata = example_header,
                               post_content = ''Topic: {research_topic}''\<rparr>)]),
      (''geologic_qa_prompt_user'',
         [(''v1.0.0.md'', Inr \<lparr>post_metadata = example_header,
                               post_content = ''Check: {research_report}''\<rparr>)])]"

definition agent_store :: PromptManager where
  "agent_store = PromptManager_init ''prompts'' (Some agent_manifest) agent_files"

definition plain_formatter :: field_formatter where
  "plain_formatter kwargs obj fld = Inl (ValueError ''Invalid format specifier'')"

definition echo_model :: chat_model where
  "echo_model messages = Inr (AIMessage ''summary'' [])"

definition example_conversation :: "message list" where
  "example_conversation =
     [HumanMessage ''topic'',
      AIMessage ''A'' [\<lparr>tc_name = ''think_tool'', tc_args = [], tc_id = ''call_1''\<rparr>],
      ToolMessage ''T1'' ''think_tool'' ''call_1'',
      AIMessage ''B'' []]"

definition example_state :: ResearcherState where
  "example_state =
     \<lparr>researcher_messages = example_conversation, tool_call_iterations = 1,
      research_topic = ''topic'', compressed_research = [], raw_notes = [], qa_report = []\<rparr>"

text \<open>The turns whose content the raw notes keep: assistant turns and tool results.\<close>

fun is_ai_or_tool :: "message \<Rightarrow> bool" where
  "is_ai_or_tool (AIMessage c tcs) = True"
| "is_ai_or_tool (ToolMessage c n i) = True"
| "is_ai_or_tool m = False"

section \<open>Routing depends only on the presence of pending tool calls\<close>

lemma should_continue_AIMessage:
  assumes "researcher_messages s \<noteq> []"
    and "last (researcher_messages s) = AIMessage c tcs"
  shows "should_continue s = Inr (if tcs \<noteq> [] then ''tool_node'' else ''compress_research'')"
  using assms by (simp add: should_continue_def last_message_def bind_exn_def)

text \<open>
  C1. When the last message of the researcher state is an assistant turn, \<open>should_continue\<close>
  returns \<open>compress_research\<close> exactly when the turn carries no pending tool call and
  \<open>tool_node\<close> exactly when it carries at least one. Two states whose last assistant turns
  agree on having pending tool calls or not are routed alike, whatever the requests, the
  text, the rest of the conversation and the iteration counter are.
\<close>

theorem should_continue_routes:
  assumes "researcher_messages s \<noteq> []"
    and "last (researcher_messages s) = AIMessage c tcs"
  shows "(should_continue s = Inr ''compress_research'' \<longleftrightarrow> tcs = [])
       \<and> (should_continue s = Inr ''tool_node'' \<longleftrightarrow> tcs \<noteq> [])
       \<and> (\<forall>(s'::ResearcherState) c' tcs'. researcher_messages s' \<noteq> []
             \<and> last (researcher_messages s') = AIMessage c' tcs'
             \<and> (tcs' = [] \<longleftrightarrow> tcs = [])
            \<longrightarrow> should_continue s' = should_continue s)"
proof -
  have here: "should_continue s = Inr (if tcs \<noteq> [] then ''tool_node'' else ''compress_research'')"
    using assms by (rule should_continue_AIMessage)
  have a: "should_continue s = Inr ''compress_research'' \<longleftrightarrow> tcs = []"
    by (simp add: here)
  have b: "should_continue s = Inr ''tool_node'' \<longleftrightarrow> tcs \<noteq> []"
    by (simp add: here)
  have c: "\<forall>(s'::ResearcherState) c' tcs'. researcher_messages s' \<noteq> []
             \<and> last (researcher_messages s') = AIMessage c' tcs'
             \<and> (tcs' = [] \<longleftrightarrow> tcs = [])
            \<longrightarrow> should_continue s' = should_continue s"
  proof (intro allI impI)
    fix s' :: ResearcherState and c' tcs'
    assume h: "researcher_messages s' \<noteq> []
             \<and> last (researcher_messages s') = AIMessage c' tcs'
             \<and> (tcs' = [] \<longleftrightarrow> tcs = [])"
    then have "should_continue s' = Inr (if tcs' \<noteq> [] then ''tool_node'' else ''compress_research'')"
      by (simp add: should_continue_AIMessage)
    with h here show "should_continue s' = should_continue s"
      by simp
  qed
  from a b c show ?thesis by blast
qed

theorem should_continue_routes_witness:
  "should_continue \<lparr>researcher_messages =
       [HumanMessage ''topic'',
        AIMessage ''searching'' [\<lparr>tc_name = ''tavily_search'', tc_args = [(''query'', ''q'')], tc_id = ''call_1''\<rparr>]],
     tool_call_iterations = 0, research_topic = ''topic'', compressed_research = [],
     raw_notes = [], qa_report = []\<rparr> = Inr ''tool_node''
   \<and> should_continue \<lparr>researcher_messages =
       [AIMessage ''thinking'' [\<lparr>tc_name = ''think_tool'', tc_args = [], tc_id = ''call_9''\<rparr>,
                               \<lparr>tc_name = ''ask_gpt_5'', tc_args = [], tc_id = ''call_10''\<rparr>]],
     tool_call_iterations = 7, research_topic = ''other'', compressed_research = [],
     raw_notes = [], qa_report = []\<rparr> = Inr ''tool_node''"
  using should_continue_routes [of
      "\<lparr>researcher_messages =
         [HumanMessage ''topic'',
          AIMessage ''searching'' [\<lparr>tc_name = ''tavily_search'', tc_args = [(''query'', ''q'')], tc_id = ''call_1''\<rparr>]],
        tool_call_iterations = 0, research_topic = ''topic'', compressed_research = [],
        raw_notes = [], qa_report = []\<rparr>"
      "''searching''"
      "[\<lparr>tc_name = ''tavily_search'', tc_args = [(''query'', ''q'')], tc_id = ''call_1''\<rparr>]"]
  by simp

section \<open>Tool execution appends one result per request\<close>

lemma observe_returns:
  assumes "\<forall>tc \<in> set tcs. \<exists>tool obs. T (tc_name tc) = Some tool \<and> tool (tc_args tc) = Inr obs"
  shows "\<exists>obs. observe T tcs = Inr obs"
  using assms
proof (induction tcs)
  case Nil
  then show ?case by simp
next
  case (Cons tc tcs)
  then obtain tool ob where t: "T (tc_name tc) = Some tool" "tool (tc_args tc) = Inr ob"
    by auto
  from Cons obtain obs where "observe T tcs = Inr obs" by auto
  with t show ?case by (simp add: bind_exn_def)
qed

lemma observe_results:
  assumes "observe T tcs = Inr obs"
  shows "length obs = length tcs
       \<and> (\<forall>i < length tcs. \<exists>tool. T (tc_name (tcs ! i)) = Some tool
                                  \<and> tool (tc_args (tcs ! i)) = Inr (obs ! i))"
  using assms
proof (induction tcs arbitrary: obs)
  case Nil
  then show ?case by simp
next
  case (Cons tc tcs)
  from Cons.prems obtain tool ob rest where
    t: "T (tc_name tc) = Some tool" "tool (tc_args tc) = Inr ob"
    and r: "observe T tcs = Inr rest" and o: "obs = ob # rest"
    by (auto simp: bind_exn_def split: option.splits sum.splits)
  from Cons.IH[OF r] have ih: "length rest = length tcs"
      "\<forall>i < length tcs. \<exists>tool. T (tc_name (tcs ! i)) = Some tool
                                  \<and> tool (tc_args (tcs ! i)) = Inr (rest ! i)"
    by simp_all
  show ?case
  proof (intro conjI allI impI)
    show "length obs = length (tc # tcs)" using o ih(1) by simp
  next
    fix i assume "i < length (tc # tcs)"
    then show "\<exists>tool. T (tc_name ((tc # tcs) ! i)) = Some tool
                  \<and> tool (tc_args ((tc # tcs) ! i)) = Inr (obs ! i)"
      using t o ih(2) by (cases i) auto
  qed
qed

lemma tool_node_AIMessage:
  assumes "researcher_messages s \<noteq> []"
    and "last (researcher_messages s) = AIMessage c tcs"
  shows "tool_node T s =
           bind_exn (observe T tcs) (\<lambda>observations.
             Inr (map (\<lambda>(observation, tc). ToolMessage observation (tc_name tc) (tc_id tc))
                    (zip observations tcs)))"
  using assms by (simp add: tool_node_def last_message_def bind_exn_def)

text \<open>
  C2. When the last message is an assistant turn carrying the requests \<open>tcs\<close>, every return
  of \<open>tool_node\<close> is exactly one tool-result turn per request, in the order of the requests:
  the i-th result is the \<open>ToolMessage\<close> holding the observation of the i-th request's tool
  on its arguments, with the name and the identifier of the i-th request; the results are
  appended to the conversation, and the graph goes from \<open>tool_node\<close> back to \<open>llm_call\<close>.
  And \<open>tool_node\<close> returns whenever every request names a registered tool whose invocation
  returns. (A request whose tool is not registered, or whose invocation raises, ends the step
  with that exception.)
\<close>

theorem tool_node_appends:
  assumes "researcher_messages s \<noteq> []"
    and "last (researcher_messages s) = AIMessage c tcs"
  shows "(\<forall>outs. tool_node T s = Inr outs \<longrightarrow>
            length outs = length tcs
          \<and> (\<forall>i < length tcs. \<exists>tool obs.
                 T (tc_name (tcs ! i)) = Some tool \<and> tool (tc_args (tcs ! i)) = Inr obs
                 \<and> outs ! i = ToolMessage obs (tc_name (tcs ! i)) (tc_id (tcs ! i)))
          \<and> researcher_messages (add_messages s outs) = researcher_messages s @ outs
          \<and> next_node ''tool_node'' (add_messages s outs) = Inr ''llm_call'')
       \<and> ((\<forall>tc \<in> set tcs. \<exists>tool obs. T (tc_name tc) = Some tool \<and> tool (tc_args tc) = Inr obs)
            \<longrightarrow> (\<exists>outs. tool_node T s = Inr outs))"
proof (rule conjI)
  show "\<forall>outs. tool_node T s = Inr outs \<longrightarrow>
            length outs = length tcs
          \<and> (\<forall>i < length tcs. \<exists>tool obs.
                 T (tc_name (tcs ! i)) = Some tool \<and> tool (tc_args (tcs ! i)) = Inr obs
                 \<and> outs ! i = ToolMessage obs (tc_name (tcs ! i)) (tc_id (tcs ! i)))
          \<and> researcher_messages (add_messages s outs) = researcher_messages s @ outs
          \<and> next_node ''tool_node'' (add_messages s outs) = Inr ''llm_call''"
  proof (rule allI, rule impI)
    fix outs assume r: "tool_node T s = Inr outs"
    from r tool_node_AIMessage[OF assms, of T]
    obtain obs where ob: "observe T tcs = Inr obs"
      and o: "outs = map (\<lambda>(observation, tc). ToolMessage observation (tc_name tc) (tc_id tc))
                      (zip obs tcs)"
      by (auto simp: bind_exn_def split: sum.splits)
    from observe_results[OF ob] have len: "length obs = length tcs"
      and each: "\<forall>i < length tcs. \<exists>tool. T (tc_name (tcs ! i)) = Some tool
                                    \<and> tool (tc_args (tcs ! i)) = Inr (obs ! i)"
      by simp_all
    have a: "length outs = length tcs" using len by (simp add: o)
    have b: "\<forall>i < length tcs. \<exists>tool obs.
                   T (tc_name (tcs ! i)) = Some tool \<and> tool (tc_args (tcs ! i)) = Inr obs
                   \<and> outs ! i = ToolMessage obs (tc_name (tcs ! i)) (tc_id (tcs ! i))"
    proof (intro allI impI)
      fix i assume i: "i < length tcs"
      with each obtain tool where "T (tc_name (tcs ! i)) = Some tool"
          "tool (tc_args (tcs ! i)) = Inr (obs ! i)" by blast
      moreover have "outs ! i = ToolMessage (obs ! i) (tc_name (tcs ! i)) (tc_id (tcs ! i))"
        using i len by (simp add: o)
      ultimately show "\<exists>tool obs.
                    T (tc_name (tcs ! i)) = Some tool \<and> tool (tc_args (tcs ! i)) = Inr obs
                    \<and> outs ! i = ToolMessage obs (tc_name (tcs ! i)) (tc_id (tcs ! i))"
        by blast
    qed
    have c: "researcher_messages (add_messages s outs) = researcher_messages s @ outs"
      by (simp add: add_messages_def)
    have d: "next_node ''tool_node'' (add_messages s outs) = Inr ''llm_call''"
      by (simp add: next_node_def)
    from a b c d show "length outs = length tcs
          \<and> (\<forall>i < length tcs. \<exists>tool obs.
                 T (tc_name (tcs ! i)) = Some tool \<and> tool (tc_args (tcs ! i)) = Inr obs
                 \<and> outs ! i = ToolMessage obs (tc_name (tcs ! i)) (tc_id (tcs ! i)))
          \<and> researcher_messages (add_messages s outs) = researcher_messages s @ outs
          \<and> next_node ''tool_node'' (add_messages s outs) = Inr ''llm_call''"
      by (intro conjI)
  qed
next
  show "(\<forall>tc \<in> set tcs. \<exists>tool obs. T (tc_name tc) = Some tool \<and> tool (tc_args tc) = Inr obs)
            \<longrightarrow> (\<exists>outs. tool_node T s = Inr outs)"
  proof (rule impI)
    assume "\<forall>tc \<in> set tcs. \<exists>tool obs. T (tc_name tc) = Some tool \<and> tool (tc_args tc) = Inr obs"
    from observe_returns[OF this] obtain obs where "observe T tcs = Inr obs" by blast
    then show "\<exists>outs. tool_node T s = Inr outs"
      using tool_node_AIMessage[OF assms, of T] by (simp add: bind_exn_def)
  qed
qed

theorem tool_node_appends_witness:
  "tool_node [''tavily_search'' \<mapsto> (\<lambda>args. Inr ''found''), ''think_tool'' \<mapsto> (\<lambda>args. Inr ''noted'')]
     \<lparr>researcher_messages =
       [HumanMessage ''topic'',
        AIMessage ''searching''
          [\<lparr>tc_name = ''tavily_search'', tc_args = [(''query'', ''q'')], tc_id = ''call_1''\<rparr>,
           \<lparr>tc_name = ''think_tool'', tc_args = [(''reflection'', ''r'')], tc_id = ''call_2''\<rparr>]],
     tool_call_iterations = 0, research_topic = ''topic'', compressed_research = [],
     raw_notes = [], qa_report = []\<rparr>
   = Inr [ToolMessage ''found'' ''tavily_search'' ''call_1'',
          ToolMessage ''noted'' ''think_tool'' ''call_2'']
   \<and> (\<exists>outs. tool_node [''tavily_search'' \<mapsto> (\<lambda>args. Inr ''found''), ''think_tool'' \<mapsto> (\<lambda>args. Inr ''noted'')]
     \<lparr>researcher_messages =
       [HumanMessage ''topic'',
        AIMessage ''searching''
          [\<lparr>tc_name = ''tavily_search'', tc_args = [(''query'', ''q'')], tc_id = ''call_1''\<rparr>,
           \<lparr>tc_name = ''think_tool'', tc_args = [(''reflection'', ''r'')], tc_id = ''call_2''\<rparr>]],
     tool_call_iterations = 0, research_topic = ''topic'', compressed_research = [],
     raw_notes = [], qa_report = []\<rparr> = Inr outs \<and> length outs = 2)"
proof -
  let ?tcs = "[\<lparr>tc_name = ''tavily_search'', tc_args = [(''query'', ''q'')], tc_id = ''call_1''\<rparr>,
           \<lparr>tc_name = ''think_tool'', tc_args = [(''reflection'', ''r'')], tc_id = ''call_2''\<rparr>]"
  let ?s = "\<lparr>researcher_messages = [HumanMessage ''topic'', AIMessage ''searching'' ?tcs],
     tool_call_iterations = 0, research_topic = ''topic'', compressed_research = [],
     raw_notes = [], qa_report = []\<rparr>"
  let ?T = "[''tavily_search'' \<mapsto> (\<lambda>args. Inr ''found''), ''think_tool'' \<mapsto> (\<lambda>args. Inr ''noted'')]
              :: string \<rightharpoonup> tool"
  have h1: "researcher_messages ?s \<noteq> []" by simp
  have h2: "last (researcher_messages ?s) = AIMessage ''searching'' ?tcs" by simp
  have h3: "\<forall>tc \<in> set ?tcs. \<exists>tool obs. ?T (tc_name tc) = Some tool \<and> tool (tc_args tc) = Inr obs"
    by simp
  have ev: "tool_node ?T ?s = Inr [ToolMessage ''found'' ''tavily_search'' ''call_1'',
          ToolMessage ''noted'' ''think_tool'' ''call_2'']"
    by (simp add: tool_node_def last_message_def bind_exn_def)
  note both = tool_node_appends[OF h1 h2, of ?T]
  from both h3 obtain outs where r: "tool_node ?T ?s = Inr outs" by blast
  from both r have "length outs = length ?tcs" by blast
  then have "length outs = 2" by simp
  with r have "\<exists>outs. tool_node ?T ?s = Inr outs \<and> length outs = 2" by (intro exI conjI)
  with ev show ?thesis by (intro conjI)
qed

section \<open>Resolving a prompt\<close>

lemma get_prompt_unknown:
  "map_of (cache pm) n = None \<Longrightarrow>
     get_prompt pm n v = Inl (ValueError (''Prompt '' @ quoted n @ '' not found''))"
  by (simp add: get_prompt_def)

lemma get_prompt_explicit:
  assumes "map_of (cache pm) n = Some loaded" and "ver \<noteq> ''latest''"
  shows "get_prompt pm n (Some ver) =
           (case map_of loaded ver of
              None \<Rightarrow> Inl (ValueError (''Version '' @ quoted ver @ '' not found for prompt '' @ quoted n))
            | Some t \<Rightarrow> Inr t)"
  using assms by (simp add: get_prompt_def bind_exn_def Let_def)

lemma get_prompt_declared:
  assumes "map_of (cache pm) n = Some loaded"
    and "declared_latest (manifest pm) n = Inr (Some ver)" and "ver \<noteq> []"
    and "v = None \<or> v = Some ''latest''"
  shows "get_prompt pm n v =
           (case map_of loaded ver of
              None \<Rightarrow> Inl (ValueError (''Version '' @ quoted ver @ '' not found for prompt '' @ quoted n))
            | Some t \<Rightarrow> Inr t)"
  using assms by (auto simp add: get_prompt_def bind_exn_def Let_def)

lemma get_prompt_fallback:
  assumes "map_of (cache pm) n = Some loaded"
    and "declared_latest (manifest pm) n = Inr None
         \<or> declared_latest (manifest pm) n = Inr (Some [])"
    and "v = None \<or> v = Some ''latest''"
    and "loaded \<noteq> []"
  shows "get_prompt pm n v =
           (case map_of loaded (last (sort (map fst loaded))) of
              None \<Rightarrow> Inl (ValueError (''Version '' @ quoted (last (sort (map fst loaded))) @ '' not found for prompt '' @ quoted n))
            | Some t \<Rightarrow> Inr t)"
  using assms by (auto simp add: get_prompt_def bind_exn_def Let_def)

lemma sorted_le_last:
  fixes ys :: "'a::linorder list"
  shows "sorted ys \<Longrightarrow> x \<in> set ys \<Longrightarrow> x \<le> last ys"
proof (induction ys)
  case Nil
  then show ?case by simp
next
  case (Cons y ys)
  show ?case
  proof (cases "ys = []")
    case True
    with Cons.prems show ?thesis by simp
  next
    case False
    have "sorted ys" using Cons.prems(1) by simp
    have "y \<le> last ys" using Cons.prems(1) False by simp
    show ?thesis
    proof (cases "x = y")
      case True
      with \<open>y \<le> last ys\<close> False show ?thesis by simp
    next
      case neq: False
      with Cons.prems(2) have "x \<in> set ys" by simp
      with Cons.IH \<open>sorted ys\<close> have "x \<le> last ys" by simp
      with False show ?thesis by simp
    qed
  qed
qed

lemma last_sort_greatest:
  fixes xs :: "'a::linorder list"
  assumes "xs \<noteq> []"
  shows "last (sort xs) \<in> set xs \<and> (\<forall>x \<in> set xs. x \<le> last (sort xs))"
proof -
  have ne: "sort xs \<noteq> []"
  proof
    assume "sort xs = []"
    then have "length (sort xs) = 0" by simp
    then show False using assms by simp
  qed
  have "last (sort xs) \<in> set (sort xs)" using ne by (rule last_in_set)
  then have mem: "last (sort xs) \<in> set xs" by simp
  have "\<forall>x \<in> set xs. x \<le> last (sort xs)"
  proof
    fix x assume "x \<in> set xs"
    then have "x \<in> set (sort xs)" by simp
    then show "x \<le> last (sort xs)" using sorted_sort[of xs] by (rule sorted_le_last[rotated])
  qed
  with mem show ?thesis by simp
qed

subsection \<open>What loading establishes\<close>

lemma map_of_load_versions:
  assumes "map_of (load_versions d n files loaded) ver = Some t"
    and "\<And>w u. map_of loaded w = Some u \<Longrightarrow> name u = n \<and> version u = w \<and> content_hash u = fingerprint (template u)"
  shows "name t = n \<and> version t = ver \<and> content_hash t = fingerprint (template t)"
  using assms
proof (induction d n files loaded rule: load_versions.induct)
  case (1 prompt_dir n loaded)
  then show ?case by simp
next
  case (2 prompt_dir n filename fl files loaded)
  show ?case
  proof (cases "endswith filename ''.md''")
    case False
    with 2 show ?thesis by simp
  next
    case True
    show ?thesis
    proof (cases fl)
      case (Inl e)
      with True 2 show ?thesis by simp
    next
      case (Inr p)
      let ?ver = "remove_md filename"
      let ?t = "load_prompt_file n ?ver (path_join prompt_dir filename) p"
      have m: "map_of (load_versions prompt_dir n files (AList.update ?ver ?t loaded)) ver = Some t"
        using "2.prems"(1) True Inr by (simp add: Let_def)
      have inv: "\<And>w u. map_of (AList.update ?ver ?t loaded) w = Some u \<Longrightarrow>
               name u = n \<and> version u = w \<and> content_hash u = fingerprint (template u)"
      proof -
        fix w u assume a: "map_of (AList.update ?ver ?t loaded) w = Some u"
        show "name u = n \<and> version u = w \<and> content_hash u = fingerprint (template u)"
        proof (cases "w = ?ver")
          case True
          with a have "u = ?t" by (simp add: update_conv')
          then show ?thesis using True by (simp add: load_prompt_file_def Let_def)
        next
          case False
          with a have "map_of loaded w = Some u" by (simp add: update_conv')
          then show ?thesis by (rule "2.prems"(2))
        qed
      qed
      from "2.IH"(2)[OF True refl refl Inr m inv] show ?thesis .
    qed
  qed
qed

lemma map_of_load_all_prompts:
  assumes "map_of (load_all_prompts d fs ps c) n = Some loaded" and "map_of loaded ver = Some t"
    and "\<And>m l w u. map_of c m = Some l \<Longrightarrow> map_of l w = Some u \<Longrightarrow>
            name u = m \<and> version u = w \<and> content_hash u = fingerprint (template u)"
  shows "name t = n \<and> version t = ver \<and> content_hash t = fingerprint (template t)"
  using assms
proof (induction d fs ps c rule: load_all_prompts.induct)
  case (1 dir fs c)
  then show ?case by simp
next
  case (2 dir fs prompt_name config rest c)
  show ?case
  proof (cases "map_of fs prompt_name")
    case None
    with 2 show ?thesis by simp
  next
    case (Some files)
    let ?l = "load_versions (path_join dir prompt_name) prompt_name files []"
    have m: "map_of (load_all_prompts dir fs rest (AList.update prompt_name ?l c)) n = Some loaded"
      using "2.prems"(1) Some by simp
    have inv: "\<And>m l w u. map_of (AList.update prompt_name ?l c) m = Some l \<Longrightarrow> map_of l w = Some u \<Longrightarrow>
            name u = m \<and> version u = w \<and> content_hash u = fingerprint (template u)"
    proof -
      fix m l w u
      assume a: "map_of (AList.update prompt_name ?l c) m = Some l" and b: "map_of l w = Some u"
      show "name u = m \<and> version u = w \<and> content_hash u = fingerprint (template u)"
      proof (cases "m = prompt_name")
        case True
        with a have "l = ?l" by (simp add: update_conv')
        with b have "map_of ?l w = Some u" by simp
        then have "name u = prompt_name \<and> version u = w \<and> content_hash u = fingerprint (template u)"
          by (rule map_of_load_versions) simp
        with True show ?thesis by simp
      next
        case False
        with a have "map_of c m = Some l" by (simp add: update_conv')
        then show ?thesis using b by (rule "2.prems"(3))
      qed
    qed
    from "2.IH"(2)[OF Some m "2.prems"(2) inv] show ?thesis .
  qed
qed

lemma loaded_store_entries:
  assumes "map_of (cache (PromptManager_init d my fs)) n = Some loaded"
    and "map_of loaded ver = Some t"
  shows "name t = n \<and> version t = ver \<and> content_hash t = fingerprint (template t)"
proof -
  from assms(1) obtain ps where
    "map_of (load_all_prompts d fs ps []) n = Some loaded"
    by (simp add: PromptManager_init_def Let_def)
  then show ?thesis using assms(2) by (rule map_of_load_all_prompts) simp
qed


section \<open>The example store, loaded\<close>

lemma strip_examples:
  "strip ''Hi {name}'' = ''Hi {name}''"
  "strip ''Hello {name}, welcome '' = ''Hello {name}, welcome''"
  "strip ''ten'' = ''ten''" "strip ''nine'' = ''nine''"
  "strip ''one'' = ''one''" "strip ''two'' = ''two''"
  by (simp_all add: strip_def is_space_def)

lemma example_store_cache:
  "cache example_store =
     [(''greeting'', [(''v1'', example_template ''greeting'' ''v1'' ''Hi {name}''),
                      (''v2'', example_template ''greeting'' ''v2'' ''Hello {name}, welcome'')]),
      (''notes'', [(''v10'', example_template ''notes'' ''v10'' ''ten''),
                   (''v9'', example_template ''notes'' ''v9'' ''nine'')]),
      (''report'', [(''v1'', example_template ''report'' ''v1'' ''one''),
                    (''v2'', example_template ''report'' ''v2'' ''two'')]),
      (''drafts'', [(''v10'', example_template ''drafts'' ''v10'' ''ten''),
                    (''v9'', example_template ''drafts'' ''v9'' ''nine'')])]"
  by (simp add: example_store_def PromptManager_init_def example_manifest_def example_files_def
      endswith_def path_join_def load_prompt_file_def example_header_def example_template_def
      strip_examples Let_def)

lemma example_store_manifest: "manifest example_store = example_manifest"
  by (simp add: example_store_def PromptManager_init_def)

section \<open>Version resolution\<close>

text \<open>
  C4. When the manifest declares a latest version for a prompt name (a non-empty string;
  \<open>get_prompt\<close> takes an empty one as no declaration), resolving with \<open>None\<close>, with the
  sentinel \<open>latest\<close> and with the declared version string give the same result: the same
  template, or the same exception.
\<close>

theorem resolve_latest_equivalence:
  assumes "declared_latest (manifest pm) n = Inr (Some ver)" and "ver \<noteq> []"
  shows "get_prompt pm n None = get_prompt pm n (Some ''latest'')
       \<and> get_prompt pm n (Some ''latest'') = get_prompt pm n (Some ver)"
proof (cases "map_of (cache pm) n")
  case None
  then show ?thesis by (simp add: get_prompt_unknown)
next
  case (Some loaded)
  show ?thesis
  proof (cases "ver = ''latest''")
    case True
    then show ?thesis using Some assms by (simp add: get_prompt_declared)
  next
    case False
    then show ?thesis using Some assms by (simp add: get_prompt_declared get_prompt_explicit)
  qed
qed

theorem resolve_latest_equivalence_witness:
  "get_prompt example_store ''greeting'' None
     = Inr (example_template ''greeting'' ''v2'' ''Hello {name}, welcome'')
   \<and> get_prompt example_store ''greeting'' (Some ''latest'')
     = Inr (example_template ''greeting'' ''v2'' ''Hello {name}, welcome'')
   \<and> get_prompt example_store ''greeting'' (Some ''v2'')
     = Inr (example_template ''greeting'' ''v2'' ''Hello {name}, welcome'')"
proof -
  have h1: "declared_latest (manifest example_store) ''greeting'' = Inr (Some ''v2'')"
    by (simp add: example_store_manifest example_manifest_def declared_latest_def)
  have h2: "''v2'' \<noteq> []" by simp
  have ev: "get_prompt example_store ''greeting'' (Some ''v2'')
     = Inr (example_template ''greeting'' ''v2'' ''Hello {name}, welcome'')"
    by (simp add: get_prompt_def example_store_cache bind_exn_def Let_def)
  from resolve_latest_equivalence[OF h1 h2] ev show ?thesis by simp
qed

text \<open>
  The fallback. When the store knows the name and has loaded at least one version of it, and
  the manifest has no entry for the name or an entry that is a mapping without a latest
  version (no key, or the empty string, which \<open>get_prompt\<close> takes as none), resolving with
  \<open>None\<close> returns the template stored under the lexicographically greatest loaded version
  string; in a store built by loading, that string is the template's \<open>version\<close>.
\<close>

lemma get_prompt_fallback_greatest:
  assumes "map_of (cache pm) n = Some loaded" and "loaded \<noteq> []"
    and "declared_latest (manifest pm) n = Inr None
         \<or> declared_latest (manifest pm) n = Inr (Some [])"
  shows "\<exists>t ver. get_prompt pm n None = Inr t \<and> map_of loaded ver = Some t
           \<and> ver \<in> fst ` set loaded \<and> (\<forall>w \<in> fst ` set loaded. w \<le> ver)
           \<and> (\<forall>d my fs. pm = PromptManager_init d my fs \<longrightarrow> version t = ver)"
proof -
  let ?ver = "last (sort (map fst loaded))"
  from assms(2) have ne: "map fst loaded \<noteq> []" by simp
  from last_sort_greatest[OF ne] have mem: "?ver \<in> fst ` set loaded"
    and top: "\<forall>w \<in> fst ` set loaded. w \<le> ?ver" by simp_all
  from mem obtain t where t: "map_of loaded ?ver = Some t"
    by (cases "map_of loaded ?ver") (simp_all add: map_of_eq_None_iff)
  have r: "get_prompt pm n None = Inr t"
    using get_prompt_fallback[OF assms(1) assms(3) _ assms(2), of None] t by simp
  have l: "\<forall>d my fs. pm = PromptManager_init d my fs \<longrightarrow> version t = ?ver"
  proof (intro allI impI)
    fix d my fs assume "pm = PromptManager_init d my fs"
    with assms(1) have "map_of (cache (PromptManager_init d my fs)) n = Some loaded" by simp
    from loaded_store_entries[OF this t] show "version t = ?ver" by simp
  qed
  from r t mem top l show ?thesis by blast
qed

lemma get_prompt_fallback_greatest_example:
  "get_prompt example_store ''notes'' None = Inr (example_template ''notes'' ''v9'' ''nine'')
   \<and> ''v10'' \<le> ''v9''
   \<and> (\<exists>t ver. get_prompt example_store ''notes'' None = Inr t \<and> version t = ver
         \<and> ''v10'' \<le> ver \<and> ''v9'' \<le> ver)"
proof -
  let ?loaded = "[(''v10'', example_template ''notes'' ''v10'' ''ten''),
                   (''v9'', example_template ''notes'' ''v9'' ''nine'')]"
  have h1: "map_of (cache example_store) ''notes'' = Some ?loaded"
    by (simp add: example_store_cache)
  have h2: "?loaded \<noteq> []" by simp
  have h3: "declared_latest (manifest example_store) ''notes'' = Inr None
            \<or> declared_latest (manifest example_store) ''notes'' = Inr (Some [])"
    by (simp add: example_store_manifest example_manifest_def declared_latest_def)
  have ev: "get_prompt example_store ''notes'' None = Inr (example_template ''notes'' ''v9'' ''nine'')"
    by (simp add: get_prompt_def example_store_cache example_store_manifest example_manifest_def
        declared_latest_def bind_exn_def Let_def)
  have le: "''v10'' \<le> ''v9''" by simp
  from get_prompt_fallback_greatest[OF h1 h2 h3] obtain t ver where
    r: "get_prompt example_store ''notes'' None = Inr t"
    and top: "\<forall>w \<in> fst ` set ?loaded. w \<le> ver"
    and l: "\<forall>d my fs. example_store = PromptManager_init d my fs \<longrightarrow> version t = ver"
    by (elim exE conjE)
  from l example_store_def have v: "version t = ver" by blast
  from top have "''v10'' \<le> ver" "''v9'' \<le> ver" by simp_all
  with r v have "\<exists>t ver. get_prompt example_store ''notes'' None = Inr t \<and> version t = ver
         \<and> ''v10'' \<le> ver \<and> ''v9'' \<le> ver" by blast
  with ev le show ?thesis by (intro conjI)
qed

lemma get_prompt_entry_not_mapping:
  assumes "map_of (cache pm) n = Some loaded"
    and "map_of (prompts (manifest pm)) n = Some None"
    and "v = None \<or> v = Some ''latest''"
  shows "get_prompt pm n v = Inl AttributeError"
  using assms by (auto simp: get_prompt_def declared_latest_def bind_exn_def Let_def)

text \<open>
  C5. The store of the example knows the prompt \<open>drafts\<close>, whose manifest entry is empty and
  so declares no latest version, and has loaded its versions \<open>v10\<close> and \<open>v9\<close>:
  \<open>list_versions\<close> lists them and each resolves by its version string. Resolving with
  \<open>None\<close> does not return the template of the greatest version string, \<open>v9\<close>: it
  raises \<open>AttributeError\<close>, where \<open>get_prompt\<close> reads \<open>latest\<close> from the entry.
\<close>

theorem resolve_empty_entry_raises:
  "map_of (prompts (manifest example_store)) ''drafts'' = Some None
   \<and> list_versions example_store ''drafts'' = Inr [''v10'', ''v9'']
   \<and> get_prompt example_store ''drafts'' (Some ''v9'')
       = Inr (example_template ''drafts'' ''v9'' ''nine'')
   \<and> get_prompt example_store ''drafts'' None = Inl AttributeError"
proof -
  let ?loaded = "[(''v10'', example_template ''drafts'' ''v10'' ''ten''),
                  (''v9'', example_template ''drafts'' ''v9'' ''nine'')]"
  have c: "map_of (cache example_store) ''drafts'' = Some ?loaded"
    by (simp add: example_store_cache)
  have m: "map_of (prompts (manifest example_store)) ''drafts'' = Some None"
    by (simp add: example_store_manifest example_manifest_def)
  have l: "list_versions example_store ''drafts'' = Inr [''v10'', ''v9'']"
    by (simp add: list_versions_def c)
  have e: "get_prompt example_store ''drafts'' (Some ''v9'')
       = Inr (example_template ''drafts'' ''v9'' ''nine'')"
    by (simp add: get_prompt_explicit[OF c])
  have r: "get_prompt example_store ''drafts'' None = Inl AttributeError"
    using c m by (rule get_prompt_entry_not_mapping) simp
  from m l e r show ?thesis by (intro conjI)
qed

text \<open>
  C8. For a name the store does not know, \<open>get_prompt\<close> (whatever the version),
  \<open>list_versions\<close> and \<open>get_changelog\<close> raise the \<open>ValueError\<close> "Prompt ... not found"; for
  a known name and an explicit version string (not the sentinel \<open>latest\<close>) under which no
  template was loaded, \<open>get_prompt\<close> raises the \<open>ValueError\<close> "Version ... not found".
\<close>

theorem resolve_not_found:
  "(map_of (cache pm) n = None \<longrightarrow>
      get_prompt pm n v = Inl (ValueError (''Prompt '' @ quoted n @ '' not found''))
      \<and> list_versions pm n = Inl (ValueError (''Prompt '' @ quoted n @ '' not found''))
      \<and> get_changelog pm n = Inl (ValueError (''Prompt '' @ quoted n @ '' not found'')))
   \<and> (map_of (cache pm) n = Some loaded \<and> map_of loaded ver = None \<and> ver \<noteq> ''latest'' \<longrightarrow>
      get_prompt pm n (Some ver)
        = Inl (ValueError (''Version '' @ quoted ver @ '' not found for prompt '' @ quoted n)))"
proof (intro conjI impI)
  assume "map_of (cache pm) n = None"
  then show "get_prompt pm n v = Inl (ValueError (''Prompt '' @ quoted n @ '' not found''))"
    by (rule get_prompt_unknown)
next
  assume "map_of (cache pm) n = None"
  then show "list_versions pm n = Inl (ValueError (''Prompt '' @ quoted n @ '' not found''))"
    by (simp add: list_versions_def)
next
  assume "map_of (cache pm) n = None"
  then show "get_changelog pm n = Inl (ValueError (''Prompt '' @ quoted n @ '' not found''))"
    by (simp add: get_changelog_def)
next
  assume "map_of (cache pm) n = Some loaded \<and> map_of loaded ver = None \<and> ver \<noteq> ''latest''"
  then show "get_prompt pm n (Some ver)
        = Inl (ValueError (''Version '' @ quoted ver @ '' not found for prompt '' @ quoted n))"
    by (simp add: get_prompt_explicit)
qed

theorem resolve_not_found_witness:
  "get_prompt example_store ''nonexistent'' None
     = Inl (ValueError (''Prompt '' @ quoted ''nonexistent'' @ '' not found''))
   \<and> list_versions example_store ''nonexistent''
     = Inl (ValueError (''Prompt '' @ quoted ''nonexistent'' @ '' not found''))
   \<and> get_changelog example_store ''nonexistent''
     = Inl (ValueError (''Prompt '' @ quoted ''nonexistent'' @ '' not found''))
   \<and> get_prompt example_store ''greeting'' (Some ''vX'')
     = Inl (ValueError (''Version '' @ quoted ''vX'' @ '' not found for prompt '' @ quoted ''greeting''))"
proof -
  let ?loaded = "[(''v1'', example_template ''greeting'' ''v1'' ''Hi {name}''),
                  (''v2'', example_template ''greeting'' ''v2'' ''Hello {name}, welcome'')]"
  have h1: "map_of (cache example_store) ''nonexistent'' = None"
    by (simp add: example_store_cache)
  have h2: "map_of (cache example_store) ''greeting'' = Some ?loaded
            \<and> map_of ?loaded ''vX'' = None \<and> ''vX'' \<noteq> ''latest''"
    by (simp add: example_store_cache)
  from resolve_not_found[of example_store "''nonexistent''" None] h1
  have a: "get_prompt example_store ''nonexistent'' None
     = Inl (ValueError (''Prompt '' @ quoted ''nonexistent'' @ '' not found''))
   \<and> list_versions example_store ''nonexistent''
     = Inl (ValueError (''Prompt '' @ quoted ''nonexistent'' @ '' not found''))
   \<and> get_changelog example_store ''nonexistent''
     = Inl (ValueError (''Prompt '' @ quoted ''nonexistent'' @ '' not found''))"
    by blast
  from resolve_not_found[of example_store "''greeting''" _ ?loaded "''vX''"] h2
  have b: "get_prompt example_store ''greeting'' (Some ''vX'')
     = Inl (ValueError (''Version '' @ quoted ''vX'' @ '' not found for prompt '' @ quoted ''greeting''))"
    by blast
  from a b show ?thesis by (intro conjI) simp_all
qed

text \<open>
  C10. When the store knows the name and the manifest declares a latest version (a non-empty
  string) under which no template was loaded, resolving with \<open>None\<close> raises the
  \<open>ValueError\<close> "Version ... not found": there is no fallback to the greatest loaded
  version, whatever other versions are loaded.
\<close>

theorem resolve_declared_missing:
  assumes "map_of (cache pm) n = Some loaded"
    and "declared_latest (manifest pm) n = Inr (Some ver)" and "ver \<noteq> []"
    and "map_of loaded ver = None"
  shows "get_prompt pm n None
           = Inl (ValueError (''Version '' @ quoted ver @ '' not found for prompt '' @ quoted n))"
  using get_prompt_declared[OF assms(1,2,3), of None] assms(4) by simp

theorem resolve_declared_missing_witness:
  "map_of (cache example_store) ''report''
     = Some [(''v1'', example_template ''report'' ''v1'' ''one''),
             (''v2'', example_template ''report'' ''v2'' ''two'')]
   \<and> get_prompt example_store ''report'' None
     = Inl (ValueError (''Version '' @ quoted ''v3'' @ '' not found for prompt '' @ quoted ''report''))"
proof -
  let ?loaded = "[(''v1'', example_template ''report'' ''v1'' ''one''),
                   (''v2'', example_template ''report'' ''v2'' ''two'')]"
  have h1: "map_of (cache example_store) ''report'' = Some ?loaded"
    by (simp add: example_store_cache)
  have h2: "declared_latest (manifest example_store) ''report'' = Inr (Some ''v3'')"
    by (simp add: example_store_manifest example_manifest_def declared_latest_def)
  have h3: "''v3'' \<noteq> []" by simp
  have h4: "map_of ?loaded ''v3'' = None" by simp
  from resolve_declared_missing[OF h1 h2 h3 h4] h1 show ?thesis by (intro conjI)
qed

section \<open>Compression and assessment\<close>

lemma filter_messages_tool_ai:
  "filter_messages ms [''tool'', ''ai''] = filter is_ai_or_tool ms"
proof -
  have "\<And>m. (message_type m \<in> set [''tool'', ''ai'']) = is_ai_or_tool m"
  proof -
    fix m show "(message_type m \<in> set [''tool'', ''ai'']) = is_ai_or_tool m"
      by (cases m) simp_all
  qed
  then show ?thesis by (simp add: filter_messages_def)
qed

lemma compress_research_result:
  assumes "compress_research pm ext today compress_model s = Inr out"
  shows "raw_notes_out out
           = [join [CHR 0x0A] (map content (filter is_ai_or_tool (researcher_messages s)))]"
  using assms
  by (auto simp: compress_research_def bind_exn_def filter_messages_tool_ai Let_def
           split: sum.splits)

text \<open>
  C6. Every return of \<open>compress_research\<close> carries as raw notes a one-element list: the
  contents of the assistant turns and tool-result turns of the conversation, in their order,
  joined by single newlines. And \<open>compress_research\<close> returns whenever its two prompts
  resolve and render and the compression model answers.
\<close>

theorem compress_research_raw_notes:
  "(\<forall>out. compress_research pm ext today compress_model s = Inr out \<longrightarrow>
      raw_notes_out out
        = [join [CHR 0x0A] (map content (filter is_ai_or_tool (researcher_messages s)))])
   \<and> (\<forall>sp system_message up human_message response.
        get_prompt pm ''compress_research_prompt_system'' (Some ''v1.0.0'') = Inr sp
        \<and> render ext sp [''date'' \<mapsto> today] = Inr system_message
        \<and> get_prompt pm ''compress_research_prompt_user'' (Some ''v1.0.0'') = Inr up
        \<and> render ext up [''research_topic'' \<mapsto> research_topic s] = Inr human_message
        \<and> compress_model ([SystemMessage system_message] @ researcher_messages s
                             @ [HumanMessage human_message]) = Inr response
        \<longrightarrow> (\<exists>out. compress_research pm ext today compress_model s = Inr out))"
proof (intro conjI allI impI)
  fix out assume "compress_research pm ext today compress_model s = Inr out"
  then show "raw_notes_out out
        = [join [CHR 0x0A] (map content (filter is_ai_or_tool (researcher_messages s)))]"
    by (rule compress_research_result)
next
  fix sp system_message up human_message response
  assume "get_prompt pm ''compress_research_prompt_system'' (Some ''v1.0.0'') = Inr sp
        \<and> render ext sp [''date'' \<mapsto> today] = Inr system_message
        \<and> get_prompt pm ''compress_research_prompt_user'' (Some ''v1.0.0'') = Inr up
        \<and> render ext up [''research_topic'' \<mapsto> research_topic s] = Inr human_message
        \<and> compress_model ([SystemMessage system_message] @ researcher_messages s
                             @ [HumanMessage human_message]) = Inr response"
  then show "\<exists>out. compress_research pm ext today compress_model s = Inr out"
    by (simp add: compress_research_def bind_exn_def)
qed

lemma agent_store_cache:
  "cache agent_store =
     [(''compress_research_prompt_system'',
         [(''v1.0.0'', example_template ''compress_research_prompt_system'' ''v1.0.0''
                         ''Today is {date}.'')]),
      (''compress_research_prompt_user'',
         [(''v1.0.0'', example_template ''compress_research_prompt_user'' ''v1.0.0''
                         ''Topic: {research_topic}'')]),
      (''geologic_qa_prompt_user'',
         [(''v1.0.0'', example_template ''geologic_qa_prompt_user'' ''v1.0.0''
                         ''Check: {research_report}'')])]"
proof -
  have s: "strip ''Today is {date}.'' = ''Today is {date}.''"
    "strip ''Topic: {research_topic}'' = ''Topic: {research_topic}''"
    "strip ''Check: {research_report}'' = ''Check: {research_report}''"
    by (simp_all add: strip_def is_space_def)
  show ?thesis
    by (simp add: agent_store_def PromptManager_init_def agent_manifest_def agent_files_def
      endswith_def path_join_def load_prompt_file_def example_header_def example_template_def
      s Let_def)
qed

lemma agent_prompts:
  "get_prompt agent_store ''compress_research_prompt_system'' (Some ''v1.0.0'')
     = Inr (example_template ''compress_research_prompt_system'' ''v1.0.0'' ''Today is {date}.'')"
  "get_prompt agent_store ''compress_research_prompt_user'' (Some ''v1.0.0'')
     = Inr (example_template ''compress_research_prompt_user'' ''v1.0.0'' ''Topic: {research_topic}'')"
  "get_prompt agent_store ''geologic_qa_prompt_user'' (Some ''v1.0.0'')
     = Inr (example_template ''geologic_qa_prompt_user'' ''v1.0.0'' ''Check: {research_report}'')"
  by (simp_all add: get_prompt_def agent_store_cache bind_exn_def Let_def)

lemma render_examples:
  "render plain_formatter (example_template n ver ''Today is {date}.'') [''date'' \<mapsto> d]
     = Inr (''Today is '' @ d @ ''.'')"
  "render plain_formatter (example_template n ver ''Topic: {research_topic}'') [''research_topic'' \<mapsto> d]
     = Inr (''Topic: '' @ d)"
  "render plain_formatter (example_template n ver ''Check: {research_report}'') [''research_report'' \<mapsto> d]
     = Inr (''Check: '' @ d)"
  by (simp_all add: render_def example_template_def bind_exn_def parse_field_def
      output_markup_def first_part_def get_integer_def is_plain_def Let_def)

theorem compress_research_raw_notes_witness:
  "compress_research agent_store plain_formatter ''Monday'' echo_model example_state
     = Inr \<lparr>compressed_research_out = ''summary'',
            raw_notes_out = [''A'' @ [CHR 0x0A] @ ''T1'' @ [CHR 0x0A] @ ''B'']\<rparr>
   \<and> (\<exists>out. compress_research agent_store plain_formatter ''Monday'' echo_model example_state
               = Inr out
           \<and> raw_notes_out out = [''A'' @ [CHR 0x0A] @ ''T1'' @ [CHR 0x0A] @ ''B''])"
proof -
  have h: "get_prompt agent_store ''compress_research_prompt_system'' (Some ''v1.0.0'')
       = Inr (example_template ''compress_research_prompt_system'' ''v1.0.0'' ''Today is {date}.'')
     \<and> render plain_formatter
         (example_template ''compress_research_prompt_system'' ''v1.0.0'' ''Today is {date}.'')
         [''date'' \<mapsto> ''Monday''] = Inr (''Today is '' @ ''Monday'' @ ''.'')
     \<and> get_prompt agent_store ''compress_research_prompt_user'' (Some ''v1.0.0'')
       = Inr (example_template ''compress_research_prompt_user'' ''v1.0.0''
                ''Topic: {research_topic}'')
     \<and> render plain_formatter
         (example_template ''compress_research_prompt_user'' ''v1.0.0'' ''Topic: {research_topic}'')
         [''research_topic'' \<mapsto> research_topic example_state]
       = Inr (''Topic: '' @ research_topic example_state)
     \<and> echo_model ([SystemMessage (''Today is '' @ ''Monday'' @ ''.'')]
                     @ researcher_messages example_state
                     @ [HumanMessage (''Topic: '' @ research_topic example_state)])
       = Inr (AIMessage ''summary'' [])"
    by (simp only: agent_prompts render_examples echo_model_def simp_thms)
  have nts: "[join [CHR 0x0A] (map content (filter is_ai_or_tool (researcher_messages example_state)))]
                 = [''A'' @ [CHR 0x0A] @ ''T1'' @ [CHR 0x0A] @ ''B'']"
    by (simp add: example_state_def example_conversation_def)
  note both = compress_research_raw_notes[where pm = agent_store and ext = plain_formatter
      and today = "''Monday''" and compress_model = echo_model and s = example_state]
  from both h obtain out where
    r: "compress_research agent_store plain_formatter ''Monday'' echo_model example_state = Inr out"
    by blast
  from both r have "raw_notes_out out
          = [join [CHR 0x0A] (map content (filter is_ai_or_tool (researcher_messages example_state)))]"
    by blast
  with nts have n: "raw_notes_out out = [''A'' @ [CHR 0x0A] @ ''T1'' @ [CHR 0x0A] @ ''B'']"
    by simp
  have ev: "compress_research agent_store plain_formatter ''Monday'' echo_model example_state
     = Inr \<lparr>compressed_research_out = ''summary'',
            raw_notes_out = [''A'' @ [CHR 0x0A] @ ''T1'' @ [CHR 0x0A] @ ''B'']\<rparr>"
    using h
    by (simp add: compress_research_def bind_exn_def filter_messages_def
        example_state_def example_conversation_def)
  from r n have "\<exists>out. compress_research agent_store plain_formatter ''Monday'' echo_model example_state
               = Inr out
           \<and> raw_notes_out out = [''A'' @ [CHR 0x0A] @ ''T1'' @ [CHR 0x0A] @ ''B'']"
    by (intro exI conjI)
  with ev show ?thesis by (intro conjI)
qed

text \<open>
  C9. For two researcher states with the same compressed research, \<open>assess_quality\<close> builds
  the same messages for the QA model, and so returns the same report or raises the same
  exception, whatever their conversations and other fields are; the messages are the single
  human turn holding the QA prompt rendered with the compressed research.
\<close>

theorem assess_quality_input:
  assumes "compressed_research s1 = compressed_research s2"
  shows "assess_quality_messages pm ext s1 = assess_quality_messages pm ext s2
       \<and> assess_quality pm ext qa_model s1 = assess_quality pm ext qa_model s2
       \<and> (\<forall>messages. assess_quality_messages pm ext s1 = Inr messages \<longrightarrow>
            (\<exists>p text. get_prompt pm ''geologic_qa_prompt_user'' (Some ''v1.0.0'') = Inr p
               \<and> render ext p [''research_report'' \<mapsto> compressed_research s1] = Inr text
               \<and> messages = [HumanMessage text]))"
proof -
  have a: "assess_quality_messages pm ext s1 = assess_quality_messages pm ext s2"
    using assms by (simp add: assess_quality_messages_def)
  then have b: "assess_quality pm ext qa_model s1 = assess_quality pm ext qa_model s2"
    by (simp add: assess_quality_def)
  have c: "\<forall>messages. assess_quality_messages pm ext s1 = Inr messages \<longrightarrow>
            (\<exists>p text. get_prompt pm ''geologic_qa_prompt_user'' (Some ''v1.0.0'') = Inr p
               \<and> render ext p [''research_report'' \<mapsto> compressed_research s1] = Inr text
               \<and> messages = [HumanMessage text])"
    by (auto simp: assess_quality_messages_def bind_exn_def split: sum.splits)
  from a b c show ?thesis by (intro conjI)
qed

theorem assess_quality_input_witness:
  "assess_quality_messages agent_store plain_formatter
     (example_state\<lparr>compressed_research := ''report''\<rparr>)
     = Inr [HumanMessage ''Check: report'']
   \<and> assess_quality_messages agent_store plain_formatter
     \<lparr>researcher_messages = [], tool_call_iterations = 0, research_topic = ''other'',
      compressed_research = ''report'', raw_notes = [''n''], qa_report = []\<rparr>
     = Inr [HumanMessage ''Check: report'']"
proof -
  let ?s1 = "example_state\<lparr>compressed_research := ''report''\<rparr>"
  let ?s2 = "\<lparr>researcher_messages = [], tool_call_iterations = 0, research_topic = ''other'',
      compressed_research = ''report'', raw_notes = [''n''], qa_report = []\<rparr>"
  have h: "compressed_research ?s1 = compressed_research ?s2" by simp
  have ev: "assess_quality_messages agent_store plain_formatter ?s1
     = Inr [HumanMessage ''Check: report'']"
    by (simp add: assess_quality_messages_def agent_prompts render_examples bind_exn_def)
  from assess_quality_input[OF h, of agent_store plain_formatter echo_model]
  have "assess_quality_messages agent_store plain_formatter ?s1
          = assess_quality_messages agent_store plain_formatter ?s2"
    by (rule conjunct1)
  with ev show ?thesis by simp
qed

section \<open>Rendering\<close>












section \<open>The content fingerprint\<close>

lemma eight_elements:
  assumes "length s = 8"
  shows "\<exists>a b c d e f g h. s = [a, b, c, d, e, f, g, h]"
proof -
  from assms have "length s = Suc (Suc (Suc (Suc (Suc (Suc (Suc (Suc 0)))))))" by simp
  then show ?thesis by (auto simp: length_Suc_conv)
qed

lemma length_round: "length s = 8 \<Longrightarrow> length (round s kw) = 8"
proof -
  assume "length s = 8"
  from eight_elements[OF this] obtain a b c d e f g h where "s = [a, b, c, d, e, f, g, h]"
    by blast
  then show ?thesis by (cases kw) (simp add: Let_def)
qed

lemma length_foldl_round: "length s = 8 \<Longrightarrow> length (foldl round s xs) = 8"
  by (induction xs arbitrary: s) (simp_all add: length_round)

lemma length_compress: "length hs = 8 \<Longrightarrow> length (compress hs block) = 8"
  by (simp add: compress_def length_foldl_round)

lemma length_foldl_compress: "length hs = 8 \<Longrightarrow> length (foldl compress hs bs) = 8"
  by (induction bs arbitrary: hs) (simp_all add: length_compress)

lemma length_sha256: "length (sha256 bs) = 8"
  by (simp add: sha256_def Let_def length_foldl_compress H256_def)

lemma length_hex_word: "length (hex_word w) = 8"
  by (simp add: hex_word_def)

lemma length_sha256_hexdigest: "length (sha256_hexdigest bs) = 64"
proof -
  from eight_elements[OF length_sha256] obtain a b c d e f g h where
    "sha256 bs = [a, b, c, d, e, f, g, h]" by blast
  then show ?thesis by (simp add: sha256_hexdigest_def length_hex_word)
qed

lemma nibble_less: "unat ((x :: w32) AND 15) < 16"
proof -
  have "x AND 15 \<le> 15" by (rule word_and_le1)
  then have "unat (x AND 15) \<le> unat (15 :: w32)" by (simp add: word_le_nat_alt)
  then show ?thesis by simp
qed

lemma hex_digit_in: "n < 16 \<Longrightarrow> hex_digit n \<in> set ''0123456789abcdef''"
proof -
  assume "n < 16"
  then have "n < length ''0123456789abcdef''" by simp
  then show ?thesis unfolding hex_digit_def by (rule nth_mem)
qed

lemma set_hex_word: "set (hex_word w) \<subseteq> set ''0123456789abcdef''"
proof
  fix c assume "c \<in> set (hex_word w)"
  then obtain i where "c = hex_digit (unat (drop_bit (4 * i) w AND 15))"
    by (auto simp: hex_word_def)
  moreover have "hex_digit (unat (drop_bit (4 * i) w AND 15)) \<in> set ''0123456789abcdef''"
    by (rule hex_digit_in[OF nibble_less])
  ultimately show "c \<in> set ''0123456789abcdef''" by (simp only:)
qed

lemma set_sha256_hexdigest: "set (sha256_hexdigest bs) \<subseteq> set ''0123456789abcdef''"
proof
  fix c assume "c \<in> set (sha256_hexdigest bs)"
  then have "c \<in> \<Union> (set ` hex_word ` set (sha256 bs))"
    by (simp only: sha256_hexdigest_def set_concat set_map)
  then obtain w where "c \<in> set (hex_word w)" by blast
  with set_hex_word show "c \<in> set ''0123456789abcdef''" by blast
qed

lemma fingerprint_shape:
  "length (fingerprint body) = 12 \<and> set (fingerprint body) \<subseteq> set ''0123456789abcdef''"
proof -
  have "length (fingerprint body) = 12"
    by (simp add: fingerprint_def length_sha256_hexdigest)
  moreover have "set (fingerprint body) \<subseteq> set (sha256_hexdigest (encode body))"
    unfolding fingerprint_def by (rule set_take_subset)
  ultimately show ?thesis using set_sha256_hexdigest by blast
qed

text \<open>
  C3, as the code has it. The fingerprint a loaded template carries is the fingerprint of
  its body and of nothing else: two loaded templates with the same body have the same
  fingerprint, whatever their names, versions, paths and metadata. A fingerprint is 12
  hexadecimal digits, so distinct bodies can share one.
\<close>

theorem fingerprint_of_body:
  "content_hash (load_prompt_file n ver path p)
     = fingerprint (template (load_prompt_file n ver path p))
   \<and> (template (load_prompt_file n1 ver1 path1 p1) = template (load_prompt_file n2 ver2 path2 p2)
        \<longrightarrow> content_hash (load_prompt_file n1 ver1 path1 p1)
              = content_hash (load_prompt_file n2 ver2 path2 p2))
   \<and> length (fingerprint body) = 12
   \<and> set (fingerprint body) \<subseteq> set ''0123456789abcdef''"
proof (intro conjI impI)
  show "content_hash (load_prompt_file n ver path p)
     = fingerprint (template (load_prompt_file n ver path p))"
    by (simp add: load_prompt_file_def Let_def)
next
  assume "template (load_prompt_file n1 ver1 path1 p1) = template (load_prompt_file n2 ver2 path2 p2)"
  then show "content_hash (load_prompt_file n1 ver1 path1 p1)
              = content_hash (load_prompt_file n2 ver2 path2 p2)"
    by (simp add: load_prompt_file_def Let_def)
next
  show "length (fingerprint body) = 12" using fingerprint_shape by blast
next
  show "set (fingerprint body) \<subseteq> set ''0123456789abcdef''" using fingerprint_shape by blast
qed

theorem fingerprint_of_body_witness:
  "template (load_prompt_file ''greeting'' ''v1'' ''prompts/greeting/v1.md''
       \<lparr>post_metadata = example_header, post_content = ''Hi {name}''\<rparr>) = ''Hi {name}''
   \<and> template (load_prompt_file ''salute'' ''v7'' ''prompts/salute/v7.md''
       \<lparr>post_metadata = \<lparr>meta_author = None, meta_date = Some ''2025-01-01'', meta_changes = None,
                         meta_tags = Some [''x''], meta_model_hints = None\<rparr>,
        post_content = '' Hi {name}  ''\<rparr>) = ''Hi {name}''
   \<and> content_hash (load_prompt_file ''greeting'' ''v1'' ''prompts/greeting/v1.md''
       \<lparr>post_metadata = example_header, post_content = ''Hi {name}''\<rparr>)
     = content_hash (load_prompt_file ''salute'' ''v7'' ''prompts/salute/v7.md''
       \<lparr>post_metadata = \<lparr>meta_author = None, meta_date = Some ''2025-01-01'', meta_changes = None,
                         meta_tags = Some [''x''], meta_model_hints = None\<rparr>,
        post_content = '' Hi {name}  ''\<rparr>)"
proof -
  let ?a = "load_prompt_file ''greeting'' ''v1'' ''prompts/greeting/v1.md''
       \<lparr>post_metadata = example_header, post_content = ''Hi {name}''\<rparr>"
  let ?b = "load_prompt_file ''salute'' ''v7'' ''prompts/salute/v7.md''
       \<lparr>post_metadata = \<lparr>meta_author = None, meta_date = Some ''2025-01-01'', meta_changes = None,
                         meta_tags = Some [''x''], meta_model_hints = None\<rparr>,
        post_content = '' Hi {name}  ''\<rparr>"
  have ta: "template ?a = ''Hi {name}''"
    by (simp add: load_prompt_file_def strip_def is_space_def Let_def)
  have tb: "template ?b = ''Hi {name}''"
    by (simp add: load_prompt_file_def strip_def is_space_def Let_def)
  from ta tb have h: "template ?a = template ?b" by simp
  from fingerprint_of_body[where ?n1.0 = "''greeting''" and ?ver1.0 = "''v1''"
      and ?path1.0 = "''prompts/greeting/v1.md''"
      and ?p1.0 = "\<lparr>post_metadata = example_header, post_content = ''Hi {name}''\<rparr>"
      and ?n2.0 = "''salute''" and ?ver2.0 = "''v7''" and ?path2.0 = "''prompts/salute/v7.md''"
      and ?p2.0 = "\<lparr>post_metadata = \<lparr>meta_author = None, meta_date = Some ''2025-01-01'',
                        meta_changes = None, meta_tags = Some [''x''], meta_model_hints = None\<rparr>,
                      post_content = '' Hi {name}  ''\<rparr>"] h
  have "content_hash ?a = content_hash ?b" by blast
  with ta tb show ?thesis by (intro conjI)
qed

text \<open>
  Two distinct bodies with the same fingerprint: their SHA-256 digests agree on the first
  12 hexadecimal digits.
\<close>

lemma fingerprint_first_body: "fingerprint ''body 699059187f89'' = ''64a3b2e33df0''"
  by code_simp

lemma fingerprint_second_body: "fingerprint ''body df5e59420f58'' = ''64a3b2e33df0''"
  by code_simp

theorem fingerprint_collision_counterexample:
  "''body 699059187f89'' \<noteq> ''body df5e59420f58''
   \<and> fingerprint ''body 699059187f89'' = fingerprint ''body df5e59420f58''"
  by (simp add: fingerprint_first_body fingerprint_second_body)

end
